theory Spec2Isabelle
  imports Complex_Main "HOL-Library.AList"
begin

section \<open>Modbus RTU client of the ammonia monitor (src/src/modbus/modbus_client.py)\<close>

text \<open>
  The theory embeds the class \<open>ModbusRTUClient\<close>. The external library minimalmodbus and
  the serial port are a parameter, the \<open>transport\<close>, that decides whether the port opens,
  whether it takes its settings, and what each bus request answers. Everything the
  client asks of the port is appended to a \<open>trace\<close>, so that a theorem can say which
  requests an operation issued.

  A Python float is modelled as the real number it stands for (a comparison of two
  floats is exact), and the arithmetic on floats, which is not exact, is a second
  parameter, \<open>float_ops\<close>.

  The class body defines \<open>disconnect\<close> and \<open>write_register\<close> twice; Python keeps the later
  definition of each (lines 186 and 350), and those are the ones embedded here.
\<close>

subsection \<open>Data model\<close>

datatype RegisterType = COIL | DISCRETE_INPUT | HOLDING_REGISTER | INPUT_REGISTER

record ModbusDeviceConfig =
  name :: string
  address :: int
  register :: int
  register_type :: RegisterType
  unit :: string
  scale :: real
  offset :: real
  description :: string
  min_value :: real
  max_value :: real
  warning_threshold :: real
  alarm_threshold :: real

text \<open>The status strings \<open>'normal'\<close>, \<open>'alerta'\<close>, \<open>'alarme'\<close> and \<open>'erro'\<close> of the source.\<close>

datatype status = Normal | Alerta | Alarme | Erro

text \<open>Exceptions that can leave a method of the client.\<close>

datatype exn = ModbusException | ValueError | AttributeError

text \<open>
  What a caller may pass for \<open>register_type\<close>: a member of the enumeration, a number, or
  any other object. \<open>RegisterType(x)\<close> gives the member whose value is \<open>x\<close> and raises
  \<open>ValueError\<close> (here \<open>None\<close>) when there is none.
\<close>

datatype register_type_arg = Member RegisterType | Number int | Object

definition RegisterType_of :: "register_type_arg \<Rightarrow> RegisterType option" where
  "RegisterType_of x =
     (case x of
        Member t \<Rightarrow> Some t
      | Number n \<Rightarrow>
          (if n = 1 then Some COIL
           else if n = 2 then Some DISCRETE_INPUT
           else if n = 3 then Some HOLDING_REGISTER
           else if n = 4 then Some INPUT_REGISTER
           else None)
      | Object \<Rightarrow> None)"

subsection \<open>Float arithmetic\<close>

text \<open>
  The three operations on floats that the client uses: \<open>x * y\<close>, \<open>x + y\<close> and
  \<open>round(x, n)\<close>. IEEE arithmetic is not modelled; the operations are taken as given.
\<close>

record float_ops =
  fmul :: "real \<Rightarrow> real \<Rightarrow> real"
  fadd :: "real \<Rightarrow> real \<Rightarrow> real"
  fround :: "real \<Rightarrow> nat \<Rightarrow> real"

subsection \<open>The transport\<close>

text \<open>
  A bus request is one call of minimalmodbus: \<open>read_bit(register, functioncode)\<close>,
  \<open>read_register(register, functioncode, number_of_decimals)\<close>,
  \<open>write_bit(register, value, functioncode)\<close> or
  \<open>write_register(register, value, functioncode)\<close>.
\<close>

datatype request =
    ReadBit int nat
  | ReadRegister int nat nat
  | WriteBit int bool nat
  | WriteRegister int int nat

text \<open>
  What a request comes back with: a value, \<open>minimalmodbus.NoResponseError\<close>,
  \<open>minimalmodbus.InvalidResponseError\<close>, or any other exception.
\<close>

datatype response = Ok real | NoResponseError | InvalidResponseError | OtherError

text \<open>
  The events seen on the port: an attempt to open it (with its success), the setting of
  its parameters (with its success), a close, and a bus request together with the slave
  address and the serial timeout in force.
\<close>

datatype event = PortOpen bool | PortSetup bool | PortClose | Bus int real request

text \<open>The attributes of \<open>minimalmodbus.Instrument\<close> that the client reads or writes.\<close>

record Instrument =
  slave_address :: int
  serial_timeout :: real
  serial_is_open :: bool
  serial_baudrate :: int
  serial_bytesize :: nat
  serial_parity :: string
  serial_stopbits :: nat

text \<open>
  The transport says, given what happened on the port so far: whether creating the
  instrument opens the port (lines 147-152); whether the port takes the settings of
  lines 155-159 for a given baud rate, and, when a setter raises, in what condition the
  new instrument is left; what a request answers; and what time it is.
\<close>

record transport =
  opens :: "event list \<Rightarrow> bool"
  configures :: "event list \<Rightarrow> int \<Rightarrow> bool"
  leftover :: "event list \<Rightarrow> int \<Rightarrow> Instrument"
  respond :: "event list \<Rightarrow> int \<Rightarrow> real \<Rightarrow> request \<Rightarrow> response"
  clock :: "event list \<Rightarrow> string"

record ModbusRTUClient =
  port :: string
  baudrate :: int
  timeout :: real
  instrument :: "Instrument option"
  connected :: bool
  devices :: "(int \<times> ModbusDeviceConfig) list"
  trace :: "event list"

text \<open>\<open>self.instrument.address = a\<close> and \<open>self.instrument.serial.timeout = t\<close>.\<close>

definition set_address :: "int \<Rightarrow> ModbusRTUClient \<Rightarrow> ModbusRTUClient" where
  "set_address a c = c\<lparr>instrument := map_option (\<lambda>i. i\<lparr>slave_address := a\<rparr>) (instrument c)\<rparr>"

definition set_timeout :: "real \<Rightarrow> ModbusRTUClient \<Rightarrow> ModbusRTUClient" where
  "set_timeout t c = c\<lparr>instrument := map_option (\<lambda>i. i\<lparr>serial_timeout := t\<rparr>) (instrument c)\<rparr>"

text \<open>
  One request on the bus. With no instrument the attribute access raises, which the
  callers' \<open>except Exception\<close> sees as any other exception.
\<close>

definition bus :: "transport \<Rightarrow> request \<Rightarrow> ModbusRTUClient \<Rightarrow> response \<times> ModbusRTUClient" where
  "bus T rq c =
     (case instrument c of
        None \<Rightarrow> (OtherError, c)
      | Some i \<Rightarrow>
          (respond T (trace c) (slave_address i) (serial_timeout i) rq,
           c\<lparr>trace := trace c @ [Bus (slave_address i) (serial_timeout i) rq]\<rparr>))"

subsection \<open>Connection\<close>

text \<open>\<open>disconnect\<close>, lines 186-191: closes the port of an existing instrument and keeps the instrument.\<close>

definition disconnect :: "ModbusRTUClient \<Rightarrow> ModbusRTUClient" where
  "disconnect c =
     (case instrument c of
        None \<Rightarrow> c
      | Some i \<Rightarrow> c\<lparr>instrument := Some (i\<lparr>serial_is_open := False\<rparr>),
                     connected := False,
                     trace := trace c @ [PortClose]\<rparr>)"

definition test_addresses :: "int list" where
  "test_addresses = [1, 2, 3, 4, 5]"

text \<open>The probing loop of \<open>connect\<close>, lines 164-179.\<close>

fun probe :: "transport \<Rightarrow> int list \<Rightarrow> ModbusRTUClient \<Rightarrow> bool \<times> ModbusRTUClient" where
  "probe T [] c = (True, c\<lparr>connected := True\<rparr>)"
| "probe T (addr # rest) c =
     (case bus T (ReadRegister 0 4 0) (set_address addr c) of
        (Ok v, c') \<Rightarrow> (True, c'\<lparr>connected := True\<rparr>)
      | (NoResponseError, c') \<Rightarrow> probe T rest c'
      | (InvalidResponseError, c') \<Rightarrow> probe T rest c'
      | (OtherError, c') \<Rightarrow> probe T rest c')"

text \<open>The instrument once lines 147-159 have run through, for a given baud rate.\<close>

definition configured_instrument :: "int \<Rightarrow> Instrument" where
  "configured_instrument b =
     \<lparr>slave_address = 1, serial_timeout = 1, serial_is_open = True, serial_baudrate = b,
      serial_bytesize = 8, serial_parity = ''N'', serial_stopbits = 1\<rparr>"

text \<open>
  \<open>connect\<close>, lines 131-184. The one \<open>try\<close> holds the creation of the instrument and the
  setting of the port: when the creation raises, the old instrument stays; when a setter
  raises, the new instrument stays as the setter left it. Either way the flag is cleared
  and \<open>False\<close> returned (lines 181-184).
\<close>

definition connect :: "transport \<Rightarrow> ModbusRTUClient \<Rightarrow> bool \<times> ModbusRTUClient" where
  "connect T c =
     (if connected c \<and> instrument c \<noteq> None then (True, c)
      else
        let c1 = disconnect c in
        if \<not> opens T (trace c1) then
          (False, c1\<lparr>connected := False, trace := trace c1 @ [PortOpen False]\<rparr>)
        else if \<not> configures T (trace c1 @ [PortOpen True]) (baudrate c1) then
          (False, c1\<lparr>instrument := Some (leftover T (trace c1 @ [PortOpen True]) (baudrate c1)),
                      connected := False,
                      trace := trace c1 @ [PortOpen True, PortSetup False]\<rparr>)
        else
          probe T test_addresses
            (c1\<lparr>instrument := Some (configured_instrument (baudrate c1)),
                 trace := trace c1 @ [PortOpen True, PortSetup True]\<rparr>))"

text \<open>\<open>add_device\<close>, line 199: a Python dict keeps the position of a key that is overwritten.\<close>

definition add_device :: "ModbusDeviceConfig \<Rightarrow> ModbusRTUClient \<Rightarrow> ModbusRTUClient" where
  "add_device device c = c\<lparr>devices := AList.update (address device) device (devices c)\<rparr>"

subsection \<open>Reading and writing registers\<close>

text \<open>
  The guard that opens \<open>read_register\<close> (lines 214-218) and \<open>write_register\<close>
  (lines 362-366): reconnect unless connected with an instrument.
\<close>

definition ensure_connected :: "transport \<Rightarrow> ModbusRTUClient \<Rightarrow> bool \<times> ModbusRTUClient" where
  "ensure_connected T c =
     (if connected c \<and> instrument c \<noteq> None then (True, c) else connect T c)"

text \<open>The bus request of a read, lines 234-240; \<open>kwargs\<close> carries \<open>number_of_decimals\<close> if given.\<close>

definition read_request :: "RegisterType \<Rightarrow> int \<Rightarrow> nat option \<Rightarrow> request" where
  "read_request reg_type reg kwargs =
     (case reg_type of
        COIL \<Rightarrow> ReadBit reg 1
      | DISCRETE_INPUT \<Rightarrow> ReadBit reg 2
      | HOLDING_REGISTER \<Rightarrow> ReadRegister reg 3 (case kwargs of None \<Rightarrow> 0 | Some n \<Rightarrow> n)
      | INPUT_REGISTER \<Rightarrow> ReadRegister reg 4 (case kwargs of None \<Rightarrow> 0 | Some n \<Rightarrow> n))"

text \<open>
  \<open>read_register\<close>, lines 202-264. \<open>Inl\<close> is an exception that leaves the method. The
  conversion of lines 220-221 stands after the guard and before the \<open>try\<close>, so its
  \<open>ValueError\<close> reaches the caller. A member of the enumeration always takes one of the
  three branches of lines 234-240, so the last \<open>else\<close> is never taken.
\<close>

definition read_register ::
  "transport \<Rightarrow> int \<Rightarrow> int \<Rightarrow> register_type_arg \<Rightarrow> nat option \<Rightarrow> ModbusRTUClient
     \<Rightarrow> (exn + real option) \<times> ModbusRTUClient" where
  "read_register T addr reg reg_type_arg kwargs c =
     (case ensure_connected T c of
        (False, c1) \<Rightarrow> (Inr None, c1)
      | (True, c1) \<Rightarrow>
          (case RegisterType_of reg_type_arg of
             None \<Rightarrow> (Inl ValueError, c1)
           | Some reg_type \<Rightarrow>
               (case instrument c1 of
                  None \<Rightarrow> (Inl AttributeError, c1)
                | Some i0 \<Rightarrow>
                    let c2 = set_address addr c1;
                        original_timeout = serial_timeout i0;
                        c3 = set_timeout 1 c2
                    in (case bus T (read_request reg_type reg kwargs) c3 of
                          (Ok v, c4) \<Rightarrow> (Inr (Some v), set_timeout original_timeout c4)
                        | (NoResponseError, c4) \<Rightarrow>
                            (Inr None,
                             set_timeout original_timeout (c4\<lparr>connected := False\<rparr>))
                        | (InvalidResponseError, c4) \<Rightarrow>
                            (Inr None, set_timeout original_timeout c4)
                        | (OtherError, c4) \<Rightarrow>
                            (Inr None,
                             set_timeout original_timeout (c4\<lparr>connected := False\<rparr>))))))"

text \<open>The \<open>try\<close> body and handlers of \<open>write_register\<close> once a request is chosen, lines 378-408.\<close>

definition write_call ::
  "transport \<Rightarrow> request \<Rightarrow> real \<Rightarrow> ModbusRTUClient \<Rightarrow> (exn + bool) \<times> ModbusRTUClient" where
  "write_call T rq original_timeout c3 =
     (case bus T rq c3 of
        (Ok v, c4) \<Rightarrow> (Inr True, set_timeout original_timeout c4)
      | (NoResponseError, c4) \<Rightarrow>
          (Inr False, set_timeout original_timeout (c4\<lparr>connected := False\<rparr>))
      | (InvalidResponseError, c4) \<Rightarrow> (Inr False, set_timeout original_timeout c4)
      | (OtherError, c4) \<Rightarrow>
          (Inr False, set_timeout original_timeout (c4\<lparr>connected := False\<rparr>)))"

text \<open>
  \<open>write_register\<close>, lines 350-408, with the conversion of lines 368-369 after the guard
  and before the \<open>try\<close>.
\<close>

definition write_register ::
  "transport \<Rightarrow> int \<Rightarrow> int \<Rightarrow> int \<Rightarrow> register_type_arg \<Rightarrow> ModbusRTUClient
     \<Rightarrow> (exn + bool) \<times> ModbusRTUClient" where
  "write_register T addr reg val reg_type_arg c =
     (case ensure_connected T c of
        (False, c1) \<Rightarrow> (Inr False, c1)
      | (True, c1) \<Rightarrow>
          (case RegisterType_of reg_type_arg of
             None \<Rightarrow> (Inl ValueError, c1)
           | Some reg_type \<Rightarrow>
               (case instrument c1 of
                  None \<Rightarrow> (Inl AttributeError, c1)
                | Some i0 \<Rightarrow>
                    let c2 = set_address addr c1;
                        original_timeout = serial_timeout i0;
                        c3 = set_timeout 1 c2
                    in (case reg_type of
                          COIL \<Rightarrow>
                            write_call T (WriteBit reg (val \<noteq> 0) 5) original_timeout c3
                        | HOLDING_REGISTER \<Rightarrow>
                            write_call T (WriteRegister reg val 6) original_timeout c3
                        | DISCRETE_INPUT \<Rightarrow> (Inr False, set_timeout original_timeout c3)
                        | INPUT_REGISTER \<Rightarrow> (Inr False, set_timeout original_timeout c3)))))"

subsection \<open>Classification and polling\<close>

text \<open>\<open>_get_status\<close>, lines 410-424.\<close>

definition get_status :: "ModbusDeviceConfig \<Rightarrow> real \<Rightarrow> status" where
  "get_status device v =
     (if v \<ge> alarm_threshold device then Alarme
      else if v \<ge> warning_threshold device then Alerta
      else Normal)"

text \<open>The order of severity of the three statuses a classification can give.\<close>

fun severity :: "status \<Rightarrow> nat" where
  "severity Normal = 0"
| "severity Alerta = 1"
| "severity Alarme = 2"
| "severity Erro = 3"

text \<open>
  \<open>read_device\<close>, lines 267-328: the raw value times the scale plus the offset, rounded to
  two decimals, in float arithmetic (lines 302-303). Out of range is logged only (lines
  306-311). An exception of \<open>read_register\<close> is caught (line 326). The register type of a
  device is always set, as the dataclass declares it, so the guard of line 277 never
  fires.
\<close>

definition read_device ::
  "float_ops \<Rightarrow> transport \<Rightarrow> ModbusDeviceConfig \<Rightarrow> ModbusRTUClient
     \<Rightarrow> real option \<times> ModbusRTUClient" where
  "read_device F T device c =
     (let read_kwargs =
            (if register_type device = INPUT_REGISTER \<or> register_type device = HOLDING_REGISTER
             then Some 2 else None)
      in case read_register T (address device) (register device)
                (Member (register_type device)) read_kwargs c of
           (Inl e, c') \<Rightarrow> (None, c')
         | (Inr None, c') \<Rightarrow> (None, c')
         | (Inr (Some raw_value), c') \<Rightarrow>
             (Some (fround F (fadd F (fmul F raw_value (scale device)) (offset device)) 2),
              c'))"

text \<open>One entry of the dictionary that \<open>read_all_devices\<close> returns.\<close>

record reading =
  r_name :: string
  r_value :: "real option"
  r_unit :: string
  r_status :: status
  r_timestamp :: string

text \<open>\<open>read_all_devices\<close>, lines 330-348: the loop over \<open>self.devices.items()\<close>.\<close>

fun read_all_loop ::
  "float_ops \<Rightarrow> transport \<Rightarrow> (int \<times> ModbusDeviceConfig) list \<Rightarrow> (int \<times> reading) list
     \<Rightarrow> ModbusRTUClient \<Rightarrow> (int \<times> reading) list \<times> ModbusRTUClient" where
  "read_all_loop F T [] results c = (results, c)"
| "read_all_loop F T ((addr, device) # rest) results c =
     (case read_device F T device c of
        (v, c') \<Rightarrow>
          read_all_loop F T rest
            (AList.update addr
               \<lparr>r_name = name device, r_value = v, r_unit = unit device,
                r_status = (case v of None \<Rightarrow> Erro | Some x \<Rightarrow> get_status device x),
                r_timestamp = clock T (trace c')\<rparr>
               results)
            c')"

definition read_all_devices ::
  "float_ops \<Rightarrow> transport \<Rightarrow> ModbusRTUClient \<Rightarrow> (int \<times> reading) list \<times> ModbusRTUClient" where
  "read_all_devices F T c = read_all_loop F T (devices c) [] c"

text \<open>
  What the dashboard takes from one sensor in \<open>update_sensor_data\<close>
  (src/src/gui/pages/dashboard.py, lines 2098-2107): the value of \<open>read_device\<close> brought
  into the range of the device with \<open>max(min_value, min(value, max_value))\<close>, and nothing
  when the read failed.
\<close>

definition sensor_value ::
  "float_ops \<Rightarrow> transport \<Rightarrow> ModbusDeviceConfig \<Rightarrow> ModbusRTUClient
     \<Rightarrow> real option \<times> ModbusRTUClient" where
  "sensor_value F T device c =
     (case read_device F T device c of
        (None, c') \<Rightarrow> (None, c')
      | (Some v, c') \<Rightarrow> (Some (max (min_value device) (min v (max_value device))), c'))"

subsection \<open>Scanning\<close>

text \<open>The sweep of \<open>scan_devices\<close>, lines 468-492.\<close>

fun scan_loop ::
  "transport \<Rightarrow> int list \<Rightarrow> int list \<Rightarrow> ModbusRTUClient \<Rightarrow> int list \<times> ModbusRTUClient" where
  "scan_loop T [] found_devices c = (found_devices, c)"
| "scan_loop T (addr # rest) found_devices c =
     (case bus T (ReadRegister 0 4 0) (set_address addr c) of
        (Ok v, c') \<Rightarrow> scan_loop T rest (found_devices @ [addr]) c'
      | (NoResponseError, c') \<Rightarrow> scan_loop T rest found_devices c'
      | (InvalidResponseError, c') \<Rightarrow> scan_loop T rest (found_devices @ [addr]) c'
      | (OtherError, c') \<Rightarrow> scan_loop T rest found_devices c')"

text \<open>\<open>scan_devices\<close>, lines 426-504.\<close>

definition scan_devices ::
  "transport \<Rightarrow> int \<Rightarrow> int \<Rightarrow> ModbusRTUClient \<Rightarrow> (exn + int list) \<times> ModbusRTUClient" where
  "scan_devices T start_address end_address c =
     (if \<not> connected c then (Inl ModbusException, c)
      else if \<not> (1 \<le> start_address \<and> start_address \<le> 247) then (Inl ValueError, c)
      else if \<not> (1 \<le> end_address \<and> end_address \<le> 247) then (Inl ValueError, c)
      else if start_address > end_address then (Inl ValueError, c)
      else
        (case instrument c of
           None \<Rightarrow> (Inl AttributeError, c)
         | Some i \<Rightarrow>
             let original_timeout = serial_timeout i in
             (case scan_loop T [start_address..end_address] [] (set_timeout (1 / 5) c) of
                (found_devices, c') \<Rightarrow> (Inr found_devices, set_timeout original_timeout c'))))"

subsection \<open>The connection state of the specification\<close>

text \<open>
  The client keeps a flag \<open>connected\<close> and an instrument whose port is open or closed.
  The four states of the specification are read off them: Connected when the flag is
  set, Degraded when the flag is cleared over a port that is still open, Disconnected
  otherwise. Connecting is never observed between two calls.
\<close>

datatype ConnectionState = Disconnected | Connecting | Connected | Degraded

definition state :: "ModbusRTUClient \<Rightarrow> ConnectionState" where
  "state c =
     (if connected c then Connected
      else case instrument c of
             None \<Rightarrow> Disconnected
           | Some i \<Rightarrow> if serial_is_open i then Degraded else Disconnected)"

subsection \<open>Vocabulary of the statements\<close>

text \<open>Whether the client has an instrument whose port is open.\<close>

definition port_open :: "ModbusRTUClient \<Rightarrow> bool" where
  "port_open c = (case instrument c of None \<Rightarrow> False | Some i \<Rightarrow> serial_is_open i)"

text \<open>The serial timeout of the instrument, if the client has one.\<close>

definition serial_timeout_of :: "ModbusRTUClient \<Rightarrow> real option" where
  "serial_timeout_of c = map_option serial_timeout (instrument c)"

text \<open>The event left on the port by one probe of input register 0 with function code 4.\<close>

definition probe_event :: "real \<Rightarrow> int \<Rightarrow> event" where
  "probe_event t a = Bus a t (ReadRegister 0 4 0)"

text \<open>A response is valid when the request came back with a value.\<close>

definition valid :: "response \<Rightarrow> bool" where
  "valid r =
     (case r of Ok v \<Rightarrow> True | NoResponseError \<Rightarrow> False
      | InvalidResponseError \<Rightarrow> False | OtherError \<Rightarrow> False)"

text \<open>
  Whether a scan counts the address as found: a value or a malformed frame does, silence
  or any other exception does not.
\<close>

definition found_by :: "response \<Rightarrow> bool" where
  "found_by r =
     (case r of Ok v \<Rightarrow> True | NoResponseError \<Rightarrow> False
      | InvalidResponseError \<Rightarrow> True | OtherError \<Rightarrow> False)"

text \<open>Whether an event, if it is a bus request, ran under the serial timeout \<open>t\<close>.\<close>

fun at_timeout :: "real \<Rightarrow> event \<Rightarrow> bool" where
  "at_timeout t (Bus a t' rq) = (t' = t)"
| "at_timeout t (PortOpen b) = True"
| "at_timeout t (PortSetup b) = True"
| "at_timeout t PortClose = True"

text \<open>The bus request of a write, lines 378-386; the read-only register types have none.\<close>

definition write_request :: "RegisterType \<Rightarrow> int \<Rightarrow> int \<Rightarrow> request option" where
  "write_request reg_type reg val =
     (case reg_type of
        COIL \<Rightarrow> Some (WriteBit reg (val \<noteq> 0) 5)
      | DISCRETE_INPUT \<Rightarrow> None
      | HOLDING_REGISTER \<Rightarrow> Some (WriteRegister reg val 6)
      | INPUT_REGISTER \<Rightarrow> None)"

text \<open>The clamp of the specification, \<open>clamp(x, min, max)\<close>.\<close>

definition clamp :: "real \<Rightarrow> real \<Rightarrow> real \<Rightarrow> real" where
  "clamp lo hi x = max lo (min hi x)"

text \<open>The bus request that \<open>read_device\<close> makes for a device, lines 285-297.\<close>

definition device_request :: "ModbusDeviceConfig \<Rightarrow> request" where
  "device_request device =
     read_request (register_type device) (register device)
       (if register_type device = INPUT_REGISTER \<or> register_type device = HOLDING_REGISTER
        then Some 2 else None)"

text \<open>
  The entry that the loop of \<open>read_all_devices\<close> writes for a device that it reads in
  the state \<open>c\<close>, lines 339-346.
\<close>

definition reading_of ::
  "float_ops \<Rightarrow> transport \<Rightarrow> ModbusDeviceConfig \<Rightarrow> ModbusRTUClient \<Rightarrow> reading" where
  "reading_of F T device c =
     \<lparr>r_name = name device, r_value = fst (read_device F T device c), r_unit = unit device,
      r_status = (case fst (read_device F T device c) of
                    None \<Rightarrow> Erro | Some x \<Rightarrow> get_status device x),
      r_timestamp = clock T (trace (snd (read_device F T device c)))\<rparr>"

text \<open>The states in which the devices of one cycle are read, one after the other.\<close>

fun poll_states ::
  "float_ops \<Rightarrow> transport \<Rightarrow> (int \<times> ModbusDeviceConfig) list \<Rightarrow> ModbusRTUClient
     \<Rightarrow> ModbusRTUClient list" where
  "poll_states F T [] c = []"
| "poll_states F T ((a, device) # rest) c =
     c # poll_states F T rest (snd (read_device F T device c))"

subsection \<open>Concrete arithmetic, devices, clients and links\<close>

text \<open>To the nearest integer, a tie to the even one.\<close>

definition round_half_even :: "real \<Rightarrow> int" where
  "round_half_even x =
     (let f = \<lfloor>x\<rfloor>; r = x - of_int f
      in if r < 1 / 2 then f
         else if 1 / 2 < r then f + 1
         else if even f then f else f + 1)"

text \<open>
  Arithmetic without rounding error, with \<open>round(x, n)\<close> to the nearest multiple of
  \<open>10 ^ -n\<close> and a tie to the even one. Float arithmetic gives the same wherever the
  product, the sum and the rounded value are floats themselves, as for the values used
  below.
\<close>

definition exact_floats :: float_ops where
  "exact_floats =
     \<lparr>fmul = (\<lambda>x y. x * y), fadd = (\<lambda>x y. x + y),
      fround = (\<lambda>x n. of_int (round_half_even (x * 10 ^ n)) / 10 ^ n)\<rparr>"

text \<open>The sensor of the example at the end of the module, lines 519-531.\<close>

definition demo_device :: ModbusDeviceConfig where
  "demo_device =
     \<lparr>name = ''Sensor 1'', address = 1, register = 0, register_type = INPUT_REGISTER,
      unit = ''ppm'', scale = 1 / 10, offset = 0, description = [],
      min_value = 0, max_value = 100, warning_threshold = 70, alarm_threshold = 90\<rparr>"

text \<open>A device with the default scale, offset, range and thresholds of the dataclass, lines 37-44.\<close>

definition default_device :: ModbusDeviceConfig where
  "default_device =
     \<lparr>name = ''Sensor 2'', address = 2, register = 0, register_type = INPUT_REGISTER,
      unit = ''ppm'', scale = 1, offset = 0, description = [],
      min_value = 0, max_value = 100, warning_threshold = 70, alarm_threshold = 90\<rparr>"

text \<open>A device read from a coil.\<close>

definition coil_device :: ModbusDeviceConfig where
  "coil_device =
     \<lparr>name = ''Sensor 3'', address = 3, register = 5, register_type = COIL,
      unit = ''ppm'', scale = 1, offset = 0, description = [],
      min_value = 0, max_value = 100, warning_threshold = 70, alarm_threshold = 90\<rparr>"

text \<open>A device whose offset is 0.001953125, that is \<open>2 ^ -9\<close>.\<close>

definition offset_device :: ModbusDeviceConfig where
  "offset_device =
     \<lparr>name = ''Sensor 4'', address = 4, register = 0, register_type = INPUT_REGISTER,
      unit = ''ppm'', scale = 1, offset = 1 / 512, description = [],
      min_value = 0, max_value = 100, warning_threshold = 70, alarm_threshold = 90\<rparr>"

text \<open>The client as \<open>__init__\<close> leaves it, lines 58-63.\<close>

definition new_client :: ModbusRTUClient where
  "new_client =
     \<lparr>port = ''COM3'', baudrate = 9600, timeout = 1, instrument = None,
      connected = False, devices = [], trace = []\<rparr>"

text \<open>
  An instrument as minimalmodbus creates it, before the client has set anything:
  19200 baud and a timeout of 0.05 s.
\<close>

definition factory_instrument :: Instrument where
  "factory_instrument =
     \<lparr>slave_address = 1, serial_timeout = 1 / 20, serial_is_open = True,
      serial_baudrate = 19200, serial_bytesize = 8, serial_parity = ''N'',
      serial_stopbits = 1\<rparr>"

text \<open>
  A link whose port opens and takes its settings, where address 3 answers every request
  with the value 12, address 7 answers with a malformed frame, and nobody else answers.
\<close>

definition demo_link :: transport where
  "demo_link =
     \<lparr>opens = (\<lambda>h. True), configures = (\<lambda>h b. True),
      leftover = (\<lambda>h b. factory_instrument),
      respond = (\<lambda>h a t rq. if a = 3 then Ok 12
                             else if a = 7 then InvalidResponseError else NoResponseError),
      clock = (\<lambda>h. ''2024-01-01 00:00:00'')\<rparr>"

text \<open>A link whose port opens and where no request is ever answered.\<close>

definition dead_link :: transport where
  "dead_link =
     \<lparr>opens = (\<lambda>h. True), configures = (\<lambda>h b. True),
      leftover = (\<lambda>h b. factory_instrument),
      respond = (\<lambda>h a t rq. NoResponseError),
      clock = (\<lambda>h. ''2024-01-01 00:00:00'')\<rparr>"

text \<open>A link whose port cannot be opened.\<close>

definition no_port :: transport where
  "no_port =
     \<lparr>opens = (\<lambda>h. False), configures = (\<lambda>h b. True),
      leftover = (\<lambda>h b. factory_instrument),
      respond = (\<lambda>h a t rq. NoResponseError),
      clock = (\<lambda>h. ''2024-01-01 00:00:00'')\<rparr>"

text \<open>
  A link whose port opens and then refuses the baud rate: the setter of line 155 raises
  and the instrument is left as it was created.
\<close>

definition strict_port :: transport where
  "strict_port =
     \<lparr>opens = (\<lambda>h. True), configures = (\<lambda>h b. False),
      leftover = (\<lambda>h b. factory_instrument),
      respond = (\<lambda>h a t rq. Ok 12),
      clock = (\<lambda>h. ''2024-01-01 00:00:00'')\<rparr>"

text \<open>A link where every request is answered with the value 500.\<close>

definition hot_link :: transport where
  "hot_link =
     \<lparr>opens = (\<lambda>h. True), configures = (\<lambda>h b. True),
      leftover = (\<lambda>h b. factory_instrument),
      respond = (\<lambda>h a t rq. Ok 500),
      clock = (\<lambda>h. ''2024-01-01 00:00:00'')\<rparr>"

text \<open>A link whose port opens and where every request ends in an exception of some other kind.\<close>

definition broken_link :: transport where
  "broken_link =
     \<lparr>opens = (\<lambda>h. True), configures = (\<lambda>h b. True),
      leftover = (\<lambda>h b. factory_instrument),
      respond = (\<lambda>h a t rq. OtherError),
      clock = (\<lambda>h. ''2024-01-01 00:00:00'')\<rparr>"

text \<open>A link where address 2 answers every request with the value 12.25 and nobody else answers.\<close>

definition mixed_link :: transport where
  "mixed_link =
     \<lparr>opens = (\<lambda>h. True), configures = (\<lambda>h b. True),
      leftover = (\<lambda>h b. factory_instrument),
      respond = (\<lambda>h a t rq. if a = 2 then Ok (49 / 4) else NoResponseError),
      clock = (\<lambda>h. ''2024-01-01 00:00:00'')\<rparr>"

text \<open>A link where every request is answered with the value 12.25.\<close>

definition steady_link :: transport where
  "steady_link =
     \<lparr>opens = (\<lambda>h. True), configures = (\<lambda>h b. True),
      leftover = (\<lambda>h b. factory_instrument),
      respond = (\<lambda>h a t rq. Ok (49 / 4)),
      clock = (\<lambda>h. ''2024-01-01 00:00:00'')\<rparr>"

text \<open>A client that is connected over an open port, with nothing on its trace.\<close>

definition live_client :: ModbusRTUClient where
  "live_client =
     \<lparr>port = ''COM3'', baudrate = 9600, timeout = 1,
      instrument = Some \<lparr>slave_address = 1, serial_timeout = 1, serial_is_open = True,
                          serial_baudrate = 9600, serial_bytesize = 8, serial_parity = ''N'',
                          serial_stopbits = 1\<rparr>,
      connected = True, devices = [], trace = []\<rparr>"

text \<open>A connected client whose serial timeout was set to 3 s by its owner.\<close>

definition slow_client :: ModbusRTUClient where
  "slow_client =
     \<lparr>port = ''COM3'', baudrate = 9600, timeout = 3,
      instrument = Some \<lparr>slave_address = 1, serial_timeout = 3, serial_is_open = True,
                          serial_baudrate = 9600, serial_bytesize = 8, serial_parity = ''N'',
                          serial_stopbits = 1\<rparr>,
      connected = True, devices = [], trace = []\<rparr>"

text \<open>That client after a read at address 1 of the link above, where nobody answers.\<close>

definition dropped_client :: ModbusRTUClient where
  "dropped_client = snd (read_register demo_link 1 0 (Member INPUT_REGISTER) None slow_client)"

text \<open>A client fresh from \<open>__init__\<close> with three registered devices.\<close>

definition polling_client :: ModbusRTUClient where
  "polling_client =
     add_device coil_device (add_device default_device (add_device demo_device new_client))"

section \<open>Alert classifier\<close>

text \<open>
  C1. For every device and value the classifier gives alarm from the alarm threshold
  upwards, otherwise warning from the warning threshold upwards, otherwise normal; the
  alarm threshold itself is classified alarm; and for a fixed device a larger value never
  gets a lower severity.
\<close>

theorem get_status_classifies:
  "get_status d v =
     (if v \<ge> alarm_threshold d then Alarme
      else if v \<ge> warning_threshold d then Alerta else Normal)
   \<and> get_status d (alarm_threshold d) = Alarme
   \<and> (v \<le> w \<longrightarrow> severity (get_status d v) \<le> severity (get_status d w))"
  by (simp add: get_status_def)

theorem get_status_classifies_witness:
  "(85::real) \<le> 95 \<and> get_status demo_device 85 = Alerta \<and> get_status demo_device 90 = Alarme
   \<and> get_status demo_device 95 = Alarme
   \<and> severity (get_status demo_device 85) \<le> severity (get_status demo_device 95)"
  using get_status_classifies [of demo_device 85 95] get_status_classifies [of demo_device 90 90]
  by (simp add: demo_device_def get_status_def)

section \<open>Basic facts about the transport and the probing loop\<close>

lemma set_address_simps [simp]:
  "instrument (set_address a c) = map_option (\<lambda>i. i\<lparr>slave_address := a\<rparr>) (instrument c)"
  "trace (set_address a c) = trace c"
  "connected (set_address a c) = connected c"
  "devices (set_address a c) = devices c"
  by (simp_all add: set_address_def)

lemma set_timeout_simps [simp]:
  "instrument (set_timeout t c) = map_option (\<lambda>i. i\<lparr>serial_timeout := t\<rparr>) (instrument c)"
  "trace (set_timeout t c) = trace c"
  "connected (set_timeout t c) = connected c"
  "devices (set_timeout t c) = devices c"
  by (simp_all add: set_timeout_def)

lemma bus_Some:
  "instrument c = Some i \<Longrightarrow>
   bus T rq c = (respond T (trace c) (slave_address i) (serial_timeout i) rq,
                 c\<lparr>trace := trace c @ [Bus (slave_address i) (serial_timeout i) rq]\<rparr>)"
  by (simp add: bus_def)

lemma probe_result: "fst (probe T as c) \<and> connected (snd (probe T as c))"
  by (induction as arbitrary: c) (auto split: prod.splits response.splits)

lemma probe_step:
  "instrument c = Some i \<Longrightarrow>
   probe T (a # as) c =
     (if valid (respond T (trace c) a (serial_timeout i) (ReadRegister 0 4 0))
      then (True, set_address a c\<lparr>trace := trace c @ [probe_event (serial_timeout i) a],
                                   connected := True\<rparr>)
      else probe T as (set_address a c\<lparr>trace := trace c @ [probe_event (serial_timeout i) a]\<rparr>))"
  by (simp add: bus_Some valid_def probe_event_def split: response.splits)

declare probe.simps(2) [simp del]

lemma probe_instrument:
  "instrument c = Some i \<Longrightarrow>
   \<exists>i'. instrument (snd (probe T as c)) = Some i' \<and> serial_timeout i' = serial_timeout i
        \<and> serial_is_open i' = serial_is_open i"
proof (induction as arbitrary: c i)
  case Nil
  then show ?case by simp
next
  case (Cons a as)
  let ?c' = "set_address a c\<lparr>trace := trace c @ [probe_event (serial_timeout i) a]\<rparr>"
  have i': "instrument ?c' = Some (i\<lparr>slave_address := a\<rparr>)"
    using Cons.prems by simp
  from Cons.IH[OF i'] show ?case
    using Cons.prems by (simp add: probe_step)
qed

lemma probe_trace:
  "instrument c = Some i \<Longrightarrow>
   \<exists>k\<le>length as.
     trace (snd (probe T as c)) = trace c @ map (probe_event (serial_timeout i)) (take k as)
     \<and> (\<forall>j. Suc j < k \<longrightarrow>
           \<not> valid (respond T (trace c @ map (probe_event (serial_timeout i)) (take j as))
                      (as ! j) (serial_timeout i) (ReadRegister 0 4 0)))
     \<and> (k = length as \<or>
        (0 < k \<and> valid (respond T (trace c @ map (probe_event (serial_timeout i)) (take (k - 1) as))
                      (as ! (k - 1)) (serial_timeout i) (ReadRegister 0 4 0))))"
proof (induction as arbitrary: c i)
  case Nil
  then show ?case by simp
next
  case (Cons a as)
  let ?t = "serial_timeout i"
  let ?rq = "ReadRegister 0 4 0"
  let ?r = "respond T (trace c) a ?t ?rq"
  let ?c' = "set_address a c\<lparr>trace := trace c @ [probe_event ?t a]\<rparr>"
  show ?case
  proof (cases "valid ?r")
    case True
    then have "probe T (a # as) c = (True, ?c'\<lparr>connected := True\<rparr>)"
      using Cons.prems by (simp add: probe_step)
    then show ?thesis using True
      by (intro exI[of _ 1]) simp
  next
    case False
    then have p: "probe T (a # as) c = probe T as ?c'"
      using Cons.prems by (simp add: probe_step)
    have i': "instrument ?c' = Some (i\<lparr>slave_address := a\<rparr>)"
      using Cons.prems by simp
    from Cons.IH[OF i'] obtain k where k: "k \<le> length as"
      and tr: "trace (snd (probe T as ?c')) = trace ?c' @ map (probe_event ?t) (take k as)"
      and before: "\<forall>j. Suc j < k \<longrightarrow>
           \<not> valid (respond T (trace ?c' @ map (probe_event ?t) (take j as)) (as ! j) ?t ?rq)"
      and last: "k = length as \<or>
        (0 < k \<and> valid (respond T (trace ?c' @ map (probe_event ?t) (take (k - 1) as))
                      (as ! (k - 1)) ?t ?rq))"
      by auto
    show ?thesis
    proof (intro exI[of _ "Suc k"] conjI allI impI)
      show "Suc k \<le> length (a # as)" using k by simp
      show "trace (snd (probe T (a # as) c)) = trace c @ map (probe_event ?t) (take (Suc k) (a # as))"
        using p tr by simp
    next
      fix j assume "Suc j < Suc k"
      then show "\<not> valid (respond T (trace c @ map (probe_event ?t) (take j (a # as))) ((a # as) ! j) ?t ?rq)"
        using False before by (cases j) auto
    next
      show "Suc k = length (a # as) \<or>
        (0 < Suc k \<and> valid (respond T (trace c @ map (probe_event ?t) (take (Suc k - 1) (a # as)))
                      ((a # as) ! (Suc k - 1)) ?t ?rq))"
        using last by (cases k) auto
    qed
  qed
qed

section \<open>Connecting\<close>

lemma disconnect_baudrate [simp]: "baudrate (disconnect c) = baudrate c"
  by (cases "instrument c") (simp_all add: disconnect_def)

lemma configured_instrument_simps [simp]:
  "serial_timeout (configured_instrument b) = 1"
  "serial_is_open (configured_instrument b)"
  by (simp_all add: configured_instrument_def)

lemma connect_already:
  "connected c \<Longrightarrow> instrument c \<noteq> None \<Longrightarrow> connect T c = (True, c)"
  by (simp add: connect_def)

lemma connect_probe:
  "\<not> (connected c \<and> instrument c \<noteq> None) \<Longrightarrow> opens T (trace (disconnect c)) \<Longrightarrow>
   configures T (trace (disconnect c) @ [PortOpen True]) (baudrate c) \<Longrightarrow>
   connect T c =
     probe T test_addresses
       (disconnect c\<lparr>instrument := Some (configured_instrument (baudrate c)),
                      trace := trace (disconnect c) @ [PortOpen True, PortSetup True]\<rparr>)"
  by (auto simp: connect_def Let_def)

lemma connect_fst:
  "fst (connect T c) \<longleftrightarrow>
     (connected c \<and> instrument c \<noteq> None)
     \<or> (opens T (trace (disconnect c))
        \<and> configures T (trace (disconnect c) @ [PortOpen True]) (baudrate c))"
  by (auto simp: connect_def Let_def probe_result)

lemma connect_True:
  "fst (connect T c) \<Longrightarrow>
   connected (snd (connect T c)) \<and> (\<exists>i. instrument (snd (connect T c)) = Some i)"
proof (cases "connected c \<and> instrument c \<noteq> None")
  case True
  then show ?thesis by (auto simp: connect_def)
next
  case False
  assume "fst (connect T c)"
  then have o: "opens T (trace (disconnect c))"
    and s: "configures T (trace (disconnect c) @ [PortOpen True]) (baudrate c)"
    using False by (auto simp: connect_fst)
  let ?c2 = "disconnect c\<lparr>instrument := Some (configured_instrument (baudrate c)),
                      trace := trace (disconnect c) @ [PortOpen True, PortSetup True]\<rparr>"
  have eq: "connect T c = probe T test_addresses ?c2"
    using False o s by (rule connect_probe)
  have "\<exists>i'. instrument (snd (probe T test_addresses ?c2)) = Some i' \<and> serial_timeout i' = 1
      \<and> serial_is_open i' = True"
    using probe_instrument [of ?c2 "configured_instrument (baudrate c)" T test_addresses]
    by simp
  then show ?thesis using eq probe_result [of T test_addresses ?c2] by auto
qed

lemma connect_fresh_timeout:
  assumes "\<not> (connected c \<and> instrument c \<noteq> None)" and "fst (connect T c)"
  shows "\<exists>i. instrument (snd (connect T c)) = Some i \<and> serial_timeout i = 1
           \<and> serial_is_open i"
proof -
  from assms have o: "opens T (trace (disconnect c))"
    and s: "configures T (trace (disconnect c) @ [PortOpen True]) (baudrate c)"
    by (auto simp: connect_fst)
  let ?c2 = "disconnect c\<lparr>instrument := Some (configured_instrument (baudrate c)),
                      trace := trace (disconnect c) @ [PortOpen True, PortSetup True]\<rparr>"
  have eq: "connect T c = probe T test_addresses ?c2"
    using assms(1) o s by (rule connect_probe)
  show ?thesis
    using probe_instrument [of ?c2 "configured_instrument (baudrate c)" T test_addresses] eq
    by auto
qed

text \<open>
  C6, as stated, fails twice. A client that is already connected returns success at once
  and probes nothing (line 137). And a port that opens but then refuses a serial setting
  (lines 155-159 stand inside the \<open>try\<close>) makes \<open>connect\<close> fail although the
  transport was opened.
\<close>

theorem connect_skips_when_connected:
  "connected live_client \<and> instrument live_client \<noteq> None \<and> trace live_client = []
   \<and> connect demo_link live_client = (True, live_client)
   \<and> trace (snd (connect demo_link live_client)) = []
   \<and> opens strict_port (trace (disconnect new_client))
   \<and> \<not> fst (connect strict_port new_client)
   \<and> trace (snd (connect strict_port new_client)) = [PortOpen True, PortSetup False]"
  by (simp add: connect_def live_client_def new_client_def disconnect_def strict_port_def)

text \<open>
  C6, amended. A client that is already connected returns success at once, unchanged.
  Otherwise \<open>connect\<close> closes the old port, opens and configures a new one, and probes
  input register 0 with function code 4 at the addresses 1 to 5 in ascending order,
  stopping after the first valid response; the client is then Connected, also when no
  address answered. It fails exactly when the port cannot be opened or cannot be
  configured.
\<close>

theorem connect_probes_candidates:
  "test_addresses = [1, 2, 3, 4, 5]
   \<and> (connected c \<and> instrument c \<noteq> None \<longrightarrow> connect T c = (True, c))
   \<and> (fst (connect T c) \<longleftrightarrow>
        (connected c \<and> instrument c \<noteq> None)
        \<or> (opens T (trace (disconnect c))
           \<and> configures T (trace (disconnect c) @ [PortOpen True]) (baudrate c)))
   \<and> (\<not> (connected c \<and> instrument c \<noteq> None) \<longrightarrow> opens T (trace (disconnect c)) \<longrightarrow>
        configures T (trace (disconnect c) @ [PortOpen True]) (baudrate c) \<longrightarrow>
        connected (snd (connect T c)) \<and> state (snd (connect T c)) = Connected
        \<and> (\<exists>k. 1 \<le> k \<and> k \<le> 5
             \<and> trace (snd (connect T c)) =
                 trace (disconnect c) @ PortOpen True # PortSetup True
                   # map (probe_event 1) (take k test_addresses)
             \<and> (\<forall>j. Suc j < k \<longrightarrow>
                   \<not> valid (respond T
                        (trace (disconnect c) @ PortOpen True # PortSetup True
                           # map (probe_event 1) (take j test_addresses))
                        (test_addresses ! j) 1 (ReadRegister 0 4 0)))
             \<and> (k = 5 \<or>
                 valid (respond T
                        (trace (disconnect c) @ PortOpen True # PortSetup True
                           # map (probe_event 1) (take (k - 1) test_addresses))
                        (test_addresses ! (k - 1)) 1 (ReadRegister 0 4 0)))))"
proof (intro conjI impI)
  show "test_addresses = [1, 2, 3, 4, 5]" by (simp add: test_addresses_def)
  show "fst (connect T c) \<longleftrightarrow>
        (connected c \<and> instrument c \<noteq> None)
        \<or> (opens T (trace (disconnect c))
           \<and> configures T (trace (disconnect c) @ [PortOpen True]) (baudrate c))"
    by (rule connect_fst)
next
  assume "connected c \<and> instrument c \<noteq> None"
  then show "connect T c = (True, c)" by (simp add: connect_def)
next
  assume nc: "\<not> (connected c \<and> instrument c \<noteq> None)" and o: "opens T (trace (disconnect c))"
    and s: "configures T (trace (disconnect c) @ [PortOpen True]) (baudrate c)"
  let ?c2 = "disconnect c\<lparr>instrument := Some (configured_instrument (baudrate c)),
                      trace := trace (disconnect c) @ [PortOpen True, PortSetup True]\<rparr>"
  have eq: "connect T c = probe T test_addresses ?c2"
    using nc o s by (rule connect_probe)
  show conn: "connected (snd (connect T c))"
    using eq probe_result[of T test_addresses ?c2] by simp
  then show "state (snd (connect T c)) = Connected" by (simp add: state_def)
  have len: "length test_addresses = 5" by (simp add: test_addresses_def)
  have "instrument ?c2 = Some (configured_instrument (baudrate c))" by simp
  from probe_trace[OF this, of test_addresses T]
  obtain k where k: "k \<le> 5"
    and tr: "trace (snd (probe T test_addresses ?c2)) =
              trace ?c2 @ map (probe_event 1) (take k test_addresses)"
    and before: "\<forall>j. Suc j < k \<longrightarrow>
           \<not> valid (respond T (trace ?c2 @ map (probe_event 1) (take j test_addresses))
                      (test_addresses ! j) 1 (ReadRegister 0 4 0))"
    and last: "k = 5 \<or>
        (0 < k \<and> valid (respond T (trace ?c2 @ map (probe_event 1) (take (k - 1) test_addresses))
                      (test_addresses ! (k - 1)) 1 (ReadRegister 0 4 0)))"
    unfolding len by auto
  show "\<exists>k. 1 \<le> k \<and> k \<le> 5
             \<and> trace (snd (connect T c)) =
                 trace (disconnect c) @ PortOpen True # PortSetup True
                   # map (probe_event 1) (take k test_addresses)
             \<and> (\<forall>j. Suc j < k \<longrightarrow>
                   \<not> valid (respond T
                        (trace (disconnect c) @ PortOpen True # PortSetup True
                           # map (probe_event 1) (take j test_addresses))
                        (test_addresses ! j) 1 (ReadRegister 0 4 0)))
             \<and> (k = 5 \<or>
                 valid (respond T
                        (trace (disconnect c) @ PortOpen True # PortSetup True
                           # map (probe_event 1) (take (k - 1) test_addresses))
                        (test_addresses ! (k - 1)) 1 (ReadRegister 0 4 0)))"
  proof (intro exI[of _ k] conjI)
    show "1 \<le> k" using last by auto
    show "k \<le> 5" by (rule k)
    show "trace (snd (connect T c)) =
                 trace (disconnect c) @ PortOpen True # PortSetup True
                   # map (probe_event 1) (take k test_addresses)"
      using eq tr by simp
    show "\<forall>j. Suc j < k \<longrightarrow>
                   \<not> valid (respond T
                        (trace (disconnect c) @ PortOpen True # PortSetup True
                           # map (probe_event 1) (take j test_addresses))
                        (test_addresses ! j) 1 (ReadRegister 0 4 0))"
      using before by simp
    show "k = 5 \<or>
                 valid (respond T
                        (trace (disconnect c) @ PortOpen True # PortSetup True
                           # map (probe_event 1) (take (k - 1) test_addresses))
                        (test_addresses ! (k - 1)) 1 (ReadRegister 0 4 0))"
      using last by auto
  qed
qed

lemma connect_demo:
  "connect demo_link new_client =
     (True, new_client\<lparr>instrument := Some \<lparr>slave_address = 3, serial_timeout = 1,
                 serial_is_open = True, serial_baudrate = 9600, serial_bytesize = 8,
                 serial_parity = ''N'', serial_stopbits = 1\<rparr>,
               connected := True,
               trace := [PortOpen True, PortSetup True, probe_event 1 1, probe_event 1 2,
                         probe_event 1 3]\<rparr>)"
  by (simp add: connect_def disconnect_def new_client_def demo_link_def test_addresses_def
      probe.simps bus_def set_address_def probe_event_def configured_instrument_def)

theorem connect_probes_candidates_witness:
  "\<not> connected new_client
   \<and> opens demo_link (trace (disconnect new_client))
   \<and> configures demo_link (trace (disconnect new_client) @ [PortOpen True]) (baudrate new_client)
   \<and> fst (connect demo_link new_client)
   \<and> state (snd (connect demo_link new_client)) = Connected
   \<and> fst (connect dead_link new_client)
   \<and> state (snd (connect dead_link new_client)) = Connected
   \<and> \<not> fst (connect no_port new_client)
   \<and> \<not> fst (connect strict_port new_client)
   \<and> connect demo_link live_client = (True, live_client)"
proof -
  have a: "\<not> (connected new_client \<and> instrument new_client \<noteq> None)"
    by (simp add: new_client_def)
  have b: "opens demo_link (trace (disconnect new_client))"
    "configures demo_link (trace (disconnect new_client) @ [PortOpen True]) (baudrate new_client)"
    by (simp_all add: demo_link_def)
  have b': "opens dead_link (trace (disconnect new_client))"
    "configures dead_link (trace (disconnect new_client) @ [PortOpen True]) (baudrate new_client)"
    by (simp_all add: dead_link_def)
  have c: "\<not> opens no_port (trace (disconnect new_client))"
    by (simp add: no_port_def)
  have c': "\<not> configures strict_port (trace (disconnect new_client) @ [PortOpen True])
      (baudrate new_client)"
    by (simp add: strict_port_def)
  have l: "connected live_client \<and> instrument live_client \<noteq> None"
    by (simp add: live_client_def)
  from connect_probes_candidates [where T = demo_link and c = new_client] a b
  have d: "fst (connect demo_link new_client)
      \<and> state (snd (connect demo_link new_client)) = Connected"
    by blast
  from connect_probes_candidates [where T = dead_link and c = new_client] a b'
  have d': "fst (connect dead_link new_client)
      \<and> state (snd (connect dead_link new_client)) = Connected"
    by blast
  from connect_probes_candidates [where T = no_port and c = new_client] a c
  have e: "\<not> fst (connect no_port new_client)"
    by blast
  from connect_probes_candidates [where T = strict_port and c = new_client] a c'
  have e': "\<not> fst (connect strict_port new_client)"
    by blast
  from connect_probes_candidates [where T = demo_link and c = live_client] l
  have f: "connect demo_link live_client = (True, live_client)"
    by blast
  have a': "\<not> connected new_client" by (simp add: new_client_def)
  from a' b d d' e e' f show ?thesis by blast
qed

section \<open>Scanning\<close>

lemma scan_not_connected:
  "\<not> connected c \<Longrightarrow> scan_devices T s e c = (Inl ModbusException, c)"
  by (simp add: scan_devices_def)

text \<open>
  C8. A scan on a client that is neither Connected nor Degraded raises
  \<open>ModbusException\<close> and leaves the client as it was: nothing is asked of the port, and
  the connection flag, the instrument and its timeout are unchanged.
\<close>

theorem scan_requires_connection:
  "state c \<noteq> Connected \<Longrightarrow> state c \<noteq> Degraded \<Longrightarrow>
   scan_devices T s e c = (Inl ModbusException, c)"
  by (rule scan_not_connected) (auto simp: state_def)

theorem scan_requires_connection_witness:
  "state new_client \<noteq> Connected \<and> state new_client \<noteq> Degraded
   \<and> scan_devices demo_link 1 10 new_client = (Inl ModbusException, new_client)"
  using scan_requires_connection [of new_client demo_link 1 10]
  by (simp add: state_def new_client_def)


lemma found_by_simps [simp]:
  "found_by (Ok v)" "\<not> found_by NoResponseError" "found_by InvalidResponseError"
  "\<not> found_by OtherError"
  by (simp_all add: found_by_def)

lemma scan_loop_upto:
  "instrument c = Some i \<Longrightarrow>
   scan_loop T [s..e] found c =
     (found @ filter (\<lambda>a. found_by (respond T
                 (trace c @ map (probe_event (serial_timeout i)) [s..a - 1]) a
                 (serial_timeout i) (ReadRegister 0 4 0))) [s..e],
      c\<lparr>instrument := Some (i\<lparr>slave_address := (if s \<le> e then e else slave_address i)\<rparr>),
        trace := trace c @ map (probe_event (serial_timeout i)) [s..e]\<rparr>)"
proof (induction s e arbitrary: found c i rule: upto.induct)
  case (1 s e)
  let ?t = "serial_timeout i"
  let ?rq = "ReadRegister 0 4 0"
  let ?P = "\<lambda>a. found_by (respond T (trace c @ map (probe_event ?t) [s..a - 1]) a ?t ?rq)"
  show ?case
  proof (cases "s \<le> e")
    case False
    then show ?thesis using "1.prems" by simp
  next
    case True
    let ?c' = "set_address s c\<lparr>trace := trace c @ [probe_event ?t s]\<rparr>"
    have i': "instrument ?c' = Some (i\<lparr>slave_address := s\<rparr>)"
      using "1.prems" by simp
    have up: "[s..e] = s # [s + 1..e]" using True by (rule upto_rec1)
    have b: "bus T ?rq (set_address s c) = (respond T (trace c) s ?t ?rq, ?c')"
      using "1.prems" by (simp add: bus_Some probe_event_def)
    have cong: "filter (\<lambda>a. found_by (respond T
                 (trace ?c' @ map (probe_event ?t) [s + 1..a - 1]) a ?t ?rq)) [s + 1..e]
          = filter ?P [s + 1..e]"
    proof (rule filter_cong[OF refl])
      fix a assume "a \<in> set [s + 1..e]"
      then have "s \<le> a - 1" by simp
      then have "[s..a - 1] = s # [s + 1..a - 1]" by (rule upto_rec1)
      then show "found_by (respond T (trace ?c' @ map (probe_event ?t) [s + 1..a - 1]) a ?t ?rq)
            = ?P a" by simp
    qed
    have st: "?c'\<lparr>instrument := Some (i\<lparr>slave_address := s\<rparr>
                     \<lparr>slave_address := (if s + 1 \<le> e then e else slave_address (i\<lparr>slave_address := s\<rparr>))\<rparr>),
                trace := trace ?c' @ map (probe_event ?t) [s + 1..e]\<rparr>
          = c\<lparr>instrument := Some (i\<lparr>slave_address := (if s \<le> e then e else slave_address i)\<rparr>),
              trace := trace c @ map (probe_event ?t) [s..e]\<rparr>"
      using True "1.prems" by (auto simp: set_address_def up)
    have ih: "\<And>f. scan_loop T [s + 1..e] f ?c' =
        (f @ filter ?P [s + 1..e],
         c\<lparr>instrument := Some (i\<lparr>slave_address := (if s \<le> e then e else slave_address i)\<rparr>),
              trace := trace c @ map (probe_event ?t) [s..e]\<rparr>)"
      using "1.IH"[OF True i'] cong st by simp
    have lhs: "scan_loop T [s..e] found c =
        (case respond T (trace c) s ?t ?rq of
           Ok v \<Rightarrow> scan_loop T [s + 1..e] (found @ [s]) ?c'
         | NoResponseError \<Rightarrow> scan_loop T [s + 1..e] found ?c'
         | InvalidResponseError \<Rightarrow> scan_loop T [s + 1..e] (found @ [s]) ?c'
         | OtherError \<Rightarrow> scan_loop T [s + 1..e] found ?c')"
      by (subst up) (simp add: b)
    have flt: "filter ?P [s..e] =
        (if found_by (respond T (trace c) s ?t ?rq) then [s] else []) @ filter ?P [s + 1..e]"
      by (subst up) simp
    show ?thesis
      by (cases "respond T (trace c) s ?t ?rq") (simp_all add: lhs flt ih)
  qed
qed

text \<open>
  C3. On a connected client a scan over \<open>s..e\<close> within 1..247 probes every address of the
  range once, in order, under a timeout of 200 ms, and returns exactly the addresses whose
  probe came back with a value or with a malformed frame; silence and any other exception
  leave the address out, and the sweep goes on to the end of the range in every case.
  The list returned is sorted and has no duplicates.
\<close>

theorem scan_devices_classifies:
  assumes "connected c" and "instrument c = Some i" and "1 \<le> s" and "s \<le> e" and "e \<le> 247"
  shows "fst (scan_devices T s e c) =
           Inr (filter (\<lambda>a. found_by (respond T (trace c @ map (probe_event (1 / 5)) [s..a - 1])
                                    a (1 / 5) (ReadRegister 0 4 0))) [s..e])
       \<and> (\<exists>found. fst (scan_devices T s e c) = Inr found \<and> sorted found \<and> distinct found
             \<and> set found \<subseteq> {s..e})
       \<and> trace (snd (scan_devices T s e c)) = trace c @ map (probe_event (1 / 5)) [s..e]
       \<and> found_by (Ok v) \<and> found_by InvalidResponseError
       \<and> \<not> found_by NoResponseError \<and> \<not> found_by OtherError"
proof -
  let ?P = "\<lambda>a. found_by (respond T (trace c @ map (probe_event (1 / 5)) [s..a - 1])
                                    a (1 / 5) (ReadRegister 0 4 0))"
  have i': "instrument (set_timeout (1 / 5) c) = Some (i\<lparr>serial_timeout := 1 / 5\<rparr>)"
    using assms(2) by simp
  have loop: "scan_loop T [s..e] [] (set_timeout (1 / 5) c) =
      (filter ?P [s..e],
       set_timeout (1 / 5) c\<lparr>instrument := Some (i\<lparr>serial_timeout := 1 / 5, slave_address := e\<rparr>),
         trace := trace c @ map (probe_event (1 / 5)) [s..e]\<rparr>)"
    using scan_loop_upto [OF i', of T s e "[]"] assms(4) by simp
  have res: "scan_devices T s e c =
      (Inr (filter ?P [s..e]),
       set_timeout (serial_timeout i)
        (set_timeout (1 / 5) c\<lparr>instrument := Some (i\<lparr>serial_timeout := 1 / 5, slave_address := e\<rparr>),
         trace := trace c @ map (probe_event (1 / 5)) [s..e]\<rparr>))"
    using assms by (simp add: scan_devices_def loop)
  have "sorted (filter ?P [s..e])" by (simp add: sorted_wrt_filter)
  moreover have "distinct (filter ?P [s..e])" by simp
  moreover have "set (filter ?P [s..e]) \<subseteq> {s..e}" by auto
  ultimately show ?thesis using res by simp
qed

theorem scan_devices_classifies_witness:
  "connected live_client \<and> instrument live_client \<noteq> None \<and> (1::int) \<le> 1 \<and> (1::int) \<le> 10
   \<and> (10::int) \<le> 247
   \<and> fst (scan_devices demo_link 1 10 live_client) = Inr [3, 7]"
proof -
  let ?i = "\<lparr>slave_address = 1, serial_timeout = 1, serial_is_open = True,
             serial_baudrate = 9600, serial_bytesize = 8, serial_parity = ''N'',
             serial_stopbits = 1\<rparr>"
  have a: "connected live_client" by (simp add: live_client_def)
  have b: "instrument live_client = Some ?i" by (simp add: live_client_def)
  have u: "[1..10] = [1, 2, 3, 4, 5, 6, 7, 8, 9, 10::int]"
    by (simp add: upto.simps [of 1 10])
  from scan_devices_classifies [OF a b, of 1 10 demo_link]
  have "fst (scan_devices demo_link 1 10 live_client) =
           Inr (filter (\<lambda>a. found_by (respond demo_link
                   (trace live_client @ map (probe_event (1 / 5)) [1..a - 1])
                   a (1 / 5) (ReadRegister 0 4 0))) [1..10])"
    by simp
  also have "\<dots> = Inr [3, 7]"
    unfolding u by (simp add: demo_link_def)
  finally show ?thesis using a b by simp
qed

section \<open>Basic facts about reading and writing\<close>

lemma ensure_connected_True:
  "ensure_connected T c = (True, c1) \<Longrightarrow> connected c1 \<and> (\<exists>i. instrument c1 = Some i)"
  using connect_True [of T c] by (auto simp: ensure_connected_def split: if_splits)

lemma ensure_connected_live:
  "connected c \<Longrightarrow> instrument c = Some i \<Longrightarrow> ensure_connected T c = (True, c)"
  by (simp add: ensure_connected_def)

lemma ensure_connected_port_open:
  "\<not> (connected c \<and> instrument c \<noteq> None) \<Longrightarrow> ensure_connected T c = (True, c1) \<Longrightarrow>
   port_open c1 \<and> serial_timeout_of c1 = Some 1"
  using connect_fresh_timeout [of c T]
  by (auto simp: ensure_connected_def port_open_def serial_timeout_of_def)

lemma read_register_live:
  "connected c \<Longrightarrow> instrument c = Some i \<Longrightarrow> RegisterType_of rta = Some rt \<Longrightarrow>
   read_register T addr reg rta kw c =
     (case respond T (trace c) addr 1 (read_request rt reg kw) of
        Ok v \<Rightarrow>
          (Inr (Some v), c\<lparr>instrument := Some (i\<lparr>slave_address := addr\<rparr>),
                           trace := trace c @ [Bus addr 1 (read_request rt reg kw)]\<rparr>)
      | NoResponseError \<Rightarrow>
          (Inr None, c\<lparr>instrument := Some (i\<lparr>slave_address := addr\<rparr>),
                       trace := trace c @ [Bus addr 1 (read_request rt reg kw)],
                       connected := False\<rparr>)
      | InvalidResponseError \<Rightarrow>
          (Inr None, c\<lparr>instrument := Some (i\<lparr>slave_address := addr\<rparr>),
                       trace := trace c @ [Bus addr 1 (read_request rt reg kw)]\<rparr>)
      | OtherError \<Rightarrow>
          (Inr None, c\<lparr>instrument := Some (i\<lparr>slave_address := addr\<rparr>),
                       trace := trace c @ [Bus addr 1 (read_request rt reg kw)],
                       connected := False\<rparr>))"
  by (simp add: read_register_def ensure_connected_def bus_def set_address_def set_timeout_def
      Let_def split: response.splits)

lemma read_register_unknown_type:
  "connected c \<Longrightarrow> instrument c = Some i \<Longrightarrow> RegisterType_of rta = None \<Longrightarrow>
   read_register T addr reg rta kw c = (Inl ValueError, c)"
  by (simp add: read_register_def ensure_connected_def)

lemma read_register_reconnect:
  "read_register T addr reg rta kw c =
     (case ensure_connected T c of
        (False, c1) \<Rightarrow> (Inr None, c1)
      | (True, c1) \<Rightarrow> read_register T addr reg rta kw c1)"
proof (cases "ensure_connected T c")
  case (Pair b c1)
  show ?thesis
  proof (cases b)
    case True
    with Pair ensure_connected_True [of T c c1]
    obtain i where "connected c1" "instrument c1 = Some i" by auto
    then have "ensure_connected T c1 = (True, c1)" by (rule ensure_connected_live)
    then show ?thesis using Pair True by (simp add: read_register_def)
  next
    case False
    then show ?thesis using Pair by (simp add: read_register_def)
  qed
qed

lemma write_register_live:
  "connected c \<Longrightarrow> instrument c = Some i \<Longrightarrow> RegisterType_of rta = Some rt \<Longrightarrow>
   write_register T addr reg val rta c =
     (case write_request rt reg val of
        None \<Rightarrow> (Inr False, c\<lparr>instrument := Some (i\<lparr>slave_address := addr\<rparr>)\<rparr>)
      | Some rq \<Rightarrow>
         (case respond T (trace c) addr 1 rq of
            Ok v \<Rightarrow>
              (Inr True, c\<lparr>instrument := Some (i\<lparr>slave_address := addr\<rparr>),
                           trace := trace c @ [Bus addr 1 rq]\<rparr>)
          | NoResponseError \<Rightarrow>
              (Inr False, c\<lparr>instrument := Some (i\<lparr>slave_address := addr\<rparr>),
                            trace := trace c @ [Bus addr 1 rq], connected := False\<rparr>)
          | InvalidResponseError \<Rightarrow>
              (Inr False, c\<lparr>instrument := Some (i\<lparr>slave_address := addr\<rparr>),
                            trace := trace c @ [Bus addr 1 rq]\<rparr>)
          | OtherError \<Rightarrow>
              (Inr False, c\<lparr>instrument := Some (i\<lparr>slave_address := addr\<rparr>),
                            trace := trace c @ [Bus addr 1 rq], connected := False\<rparr>)))"
  by (cases rt)
     (simp_all add: write_register_def write_call_def write_request_def ensure_connected_def
        bus_def set_address_def set_timeout_def Let_def split: response.splits)

lemma write_register_unknown_type:
  "connected c \<Longrightarrow> instrument c = Some i \<Longrightarrow> RegisterType_of rta = None \<Longrightarrow>
   write_register T addr reg val rta c = (Inl ValueError, c)"
  by (simp add: write_register_def ensure_connected_def)

lemma write_register_reconnect:
  "write_register T addr reg val rta c =
     (case ensure_connected T c of
        (False, c1) \<Rightarrow> (Inr False, c1)
      | (True, c1) \<Rightarrow> write_register T addr reg val rta c1)"
proof (cases "ensure_connected T c")
  case (Pair b c1)
  show ?thesis
  proof (cases b)
    case True
    with Pair ensure_connected_True [of T c c1]
    obtain i where "connected c1" "instrument c1 = Some i" by auto
    then have "ensure_connected T c1 = (True, c1)" by (rule ensure_connected_live)
    then show ?thesis using Pair True by (simp add: write_register_def)
  next
    case False
    then show ?thesis using Pair by (simp add: write_register_def)
  qed
qed

lemma read_register_result:
  "fst (read_register T addr reg rta kw c) =
     (case ensure_connected T c of
        (False, c1) \<Rightarrow> Inr None
      | (True, c1) \<Rightarrow>
          (case RegisterType_of rta of
             None \<Rightarrow> Inl ValueError
           | Some rt \<Rightarrow>
               Inr (case respond T (trace c1) addr 1 (read_request rt reg kw) of
                      Ok v \<Rightarrow> Some v
                    | NoResponseError \<Rightarrow> None
                    | InvalidResponseError \<Rightarrow> None
                    | OtherError \<Rightarrow> None)))"
proof (cases "ensure_connected T c")
  case (Pair b c1)
  show ?thesis
  proof (cases b)
    case False
    then show ?thesis using Pair
      by (simp add: read_register_reconnect [of T addr reg rta kw c])
  next
    case True
    with Pair ensure_connected_True [of T c c1]
    obtain i where live: "connected c1" "instrument c1 = Some i" by auto
    show ?thesis
    proof (cases "RegisterType_of rta")
      case None
      then show ?thesis using Pair True
        by (simp add: read_register_reconnect [of T addr reg rta kw c]
            read_register_unknown_type [OF live])
    next
      case (Some rt)
      then show ?thesis using Pair True
        by (simp add: read_register_reconnect [of T addr reg rta kw c]
            read_register_live [OF live Some] split: response.splits)
    qed
  qed
qed


lemma live_client_live:
  "connected live_client"
  "instrument live_client = Some \<lparr>slave_address = 1, serial_timeout = 1, serial_is_open = True,
      serial_baudrate = 9600, serial_bytesize = 8, serial_parity = ''N'', serial_stopbits = 1\<rparr>"
  "trace live_client = []"
  by (simp_all add: live_client_def)

lemma RegisterType_of_simps [simp]:
  "RegisterType_of (Member rt) = Some rt"
  "RegisterType_of (Number 3) = Some HOLDING_REGISTER"
  "RegisterType_of (Number 4) = Some INPUT_REGISTER"
  "RegisterType_of (Number 9) = None"
  "RegisterType_of Object = None"
  by (simp_all add: RegisterType_of_def)

section \<open>Reading and writing\<close>




text \<open>
  C4, as stated, fails: a read that meets a malformed frame returns the error while the
  client stays Connected (lines 252-254 do not clear the flag).
\<close>

theorem read_invalid_response_stays_connected:
  "respond demo_link (trace live_client) 7 1 (read_request INPUT_REGISTER 0 None)
     = InvalidResponseError
   \<and> state live_client = Connected
   \<and> fst (read_register demo_link 7 0 (Member INPUT_REGISTER) None live_client) = Inr None
   \<and> state (snd (read_register demo_link 7 0 (Member INPUT_REGISTER) None live_client))
       = Connected
   \<and> state (snd (read_register demo_link 7 0 (Member INPUT_REGISTER) None live_client))
       \<noteq> Degraded"
  by (simp add: read_register_live [OF live_client_live(1,2)] demo_link_def state_def
      live_client_live)

text \<open>
  C4, amended. For every read or write whose request reaches the bus, that is, once the
  connection guard has passed and the register type is one the operation serves: if the
  transport gives no response, or raises any exception other than a malformed frame, the
  operation returns the error and clears the connection flag, which over an open port is
  the state Degraded (and the port is open whenever the guard had to reconnect); if the
  transport gives a malformed frame, the operation returns the error and the client
  stays Connected.
\<close>

theorem comm_error_connection_state:
  assumes "ensure_connected T c = (True, c1)" and "RegisterType_of rta = Some rt"
  shows "(respond T (trace c1) addr 1 (read_request rt reg kw) = NoResponseError
          \<or> respond T (trace c1) addr 1 (read_request rt reg kw) = OtherError \<longrightarrow>
            fst (read_register T addr reg rta kw c) = Inr None
            \<and> \<not> connected (snd (read_register T addr reg rta kw c))
            \<and> state (snd (read_register T addr reg rta kw c))
                = (if port_open c1 then Degraded else Disconnected))
       \<and> (respond T (trace c1) addr 1 (read_request rt reg kw) = InvalidResponseError \<longrightarrow>
            fst (read_register T addr reg rta kw c) = Inr None
            \<and> connected (snd (read_register T addr reg rta kw c))
            \<and> state (snd (read_register T addr reg rta kw c)) = Connected)
       \<and> (write_request rt reg val = Some rq \<longrightarrow>
            respond T (trace c1) addr 1 rq = NoResponseError
            \<or> respond T (trace c1) addr 1 rq = OtherError \<longrightarrow>
            fst (write_register T addr reg val rta c) = Inr False
            \<and> \<not> connected (snd (write_register T addr reg val rta c))
            \<and> state (snd (write_register T addr reg val rta c))
                = (if port_open c1 then Degraded else Disconnected))
       \<and> (write_request rt reg val = Some rq \<longrightarrow>
            respond T (trace c1) addr 1 rq = InvalidResponseError \<longrightarrow>
            fst (write_register T addr reg val rta c) = Inr False
            \<and> connected (snd (write_register T addr reg val rta c))
            \<and> state (snd (write_register T addr reg val rta c)) = Connected)
       \<and> (\<not> (connected c \<and> instrument c \<noteq> None) \<longrightarrow> port_open c1)"
proof -
  from assms(1) ensure_connected_True [of T c c1]
  obtain i where live: "connected c1" "instrument c1 = Some i" by auto
  have r: "read_register T addr reg rta kw c = read_register T addr reg rta kw c1"
    using assms(1) by (simp add: read_register_reconnect [of T addr reg rta kw c])
  have w: "write_register T addr reg val rta c = write_register T addr reg val rta c1"
    using assms(1) by (simp add: write_register_reconnect [of T addr reg val rta c])
  have p: "\<not> (connected c \<and> instrument c \<noteq> None) \<longrightarrow> port_open c1"
    using ensure_connected_port_open [of c T c1] assms(1) by blast
  show ?thesis
    unfolding r w
    using p live
    by (auto simp: read_register_live [OF live assms(2)]
        write_register_live [OF live assms(2)] state_def port_open_def)
qed

theorem comm_error_connection_state_witness:
  "ensure_connected demo_link live_client = (True, live_client)
   \<and> RegisterType_of (Member INPUT_REGISTER) = Some INPUT_REGISTER
   \<and> respond demo_link (trace live_client) 1 1 (read_request INPUT_REGISTER 0 None)
       = NoResponseError
   \<and> state (snd (read_register demo_link 1 0 (Member INPUT_REGISTER) None live_client))
       = Degraded
   \<and> respond broken_link (trace live_client) 1 1 (read_request INPUT_REGISTER 0 None)
       = OtherError
   \<and> state (snd (read_register broken_link 1 0 (Member INPUT_REGISTER) None live_client))
       = Degraded
   \<and> respond demo_link (trace live_client) 7 1 (read_request INPUT_REGISTER 0 None)
       = InvalidResponseError
   \<and> state (snd (read_register demo_link 7 0 (Member INPUT_REGISTER) None live_client))
       = Connected
   \<and> write_request HOLDING_REGISTER 0 42 = Some (WriteRegister 0 42 6)
   \<and> respond demo_link (trace live_client) 1 1 (WriteRegister 0 42 6) = NoResponseError
   \<and> state (snd (write_register demo_link 1 0 42 (Member HOLDING_REGISTER) live_client))
       = Degraded
   \<and> respond broken_link (trace live_client) 1 1 (WriteRegister 0 42 6) = OtherError
   \<and> state (snd (write_register broken_link 1 0 42 (Member HOLDING_REGISTER) live_client))
       = Degraded
   \<and> respond demo_link (trace live_client) 7 1 (WriteRegister 0 42 6) = InvalidResponseError
   \<and> state (snd (write_register demo_link 7 0 42 (Member HOLDING_REGISTER) live_client))
       = Connected
   \<and> \<not> connected new_client
   \<and> fst (ensure_connected dead_link new_client)
   \<and> state (snd (read_register dead_link 1 0 (Member INPUT_REGISTER) None new_client))
       = Degraded"
proof -
  have e: "\<And>T. ensure_connected T live_client = (True, live_client)"
    by (simp add: ensure_connected_def live_client_live)
  have m: "\<And>rt. RegisterType_of (Member rt) = Some rt" by simp
  have po: "port_open live_client" by (simp add: port_open_def live_client_live)
  have r: "\<And>h a t rq. respond demo_link h a t rq =
      (if a = 3 then Ok 12 else if a = 7 then InvalidResponseError else NoResponseError)"
    "\<And>h a t rq. respond broken_link h a t rq = OtherError"
    "\<And>h a t rq. respond dead_link h a t rq = NoResponseError"
    by (simp_all add: demo_link_def broken_link_def dead_link_def)
  have wq: "write_request HOLDING_REGISTER 0 42 = Some (WriteRegister 0 42 6)"
    by (simp add: write_request_def)
  have t1: "state (snd (read_register demo_link 1 0 (Member INPUT_REGISTER) None live_client))
       = Degraded"
    using comm_error_connection_state [OF e m, where T = demo_link and addr = 1
        and rt = INPUT_REGISTER and reg = 0 and kw = None]
    by (simp add: r po)
  have t2: "state (snd (read_register broken_link 1 0 (Member INPUT_REGISTER) None live_client))
       = Degraded"
    using comm_error_connection_state [OF e m, where T = broken_link and addr = 1
        and rt = INPUT_REGISTER and reg = 0 and kw = None]
    by (simp add: r po)
  have t3: "state (snd (read_register demo_link 7 0 (Member INPUT_REGISTER) None live_client))
       = Connected"
    using comm_error_connection_state [OF e m, where T = demo_link and addr = 7
        and rt = INPUT_REGISTER and reg = 0 and kw = None]
    by (simp add: r po)
  have t4: "state (snd (write_register demo_link 1 0 42 (Member HOLDING_REGISTER) live_client))
       = Degraded"
    using comm_error_connection_state [OF e m, where T = demo_link and addr = 1
        and rt = HOLDING_REGISTER and reg = 0 and val = 42 and rq = "WriteRegister 0 42 6"]
    by (simp add: r po wq)
  have t5: "state (snd (write_register broken_link 1 0 42 (Member HOLDING_REGISTER) live_client))
       = Degraded"
    using comm_error_connection_state [OF e m, where T = broken_link and addr = 1
        and rt = HOLDING_REGISTER and reg = 0 and val = 42 and rq = "WriteRegister 0 42 6"]
    by (simp add: r po wq)
  have t6: "state (snd (write_register demo_link 7 0 42 (Member HOLDING_REGISTER) live_client))
       = Connected"
    using comm_error_connection_state [OF e m, where T = demo_link and addr = 7
        and rt = HOLDING_REGISTER and reg = 0 and val = 42 and rq = "WriteRegister 0 42 6"]
    by (simp add: r po wq)
  have nc: "\<not> connected new_client" by (simp add: new_client_def)
  have f: "fst (ensure_connected dead_link new_client)"
    by (simp add: ensure_connected_def nc connect_fst dead_link_def)
  then obtain c1 where g: "ensure_connected dead_link new_client = (True, c1)"
    by (cases "ensure_connected dead_link new_client") auto
  have t7: "state (snd (read_register dead_link 1 0 (Member INPUT_REGISTER) None new_client))
       = Degraded"
    using comm_error_connection_state [OF g m, where addr = 1
        and rt = INPUT_REGISTER and reg = 0 and kw = None] nc
    by (simp add: r)
  show ?thesis using e t1 t2 t3 t4 t5 t6 t7 nc f by (simp add: r wq live_client_live)
qed

text \<open>
  C5, as stated, fails: on a client that is not connected a write to an input register
  first connects, which opens the port and probes the bus, and the client ends Connected.
\<close>

theorem readonly_write_reconnects_first:
  "trace new_client = [] \<and> state new_client = Disconnected
   \<and> fst (write_register demo_link 1 0 1 (Member INPUT_REGISTER) new_client) = Inr False
   \<and> trace (snd (write_register demo_link 1 0 1 (Member INPUT_REGISTER) new_client)) =
       [PortOpen True, PortSetup True, probe_event 1 1, probe_event 1 2, probe_event 1 3]
   \<and> state (snd (write_register demo_link 1 0 1 (Member INPUT_REGISTER) new_client))
       = Connected"
proof -
  have e: "ensure_connected demo_link new_client = connect demo_link new_client"
    by (simp add: ensure_connected_def new_client_def)
  have n: "trace new_client = [] \<and> state new_client = Disconnected"
    by (simp add: new_client_def state_def)
  show ?thesis
    using n
    by (simp add: write_register_reconnect [of demo_link 1 0 1 "Member INPUT_REGISTER" new_client]
        e connect_demo write_register_live [where rt = INPUT_REGISTER] write_request_def
        state_def)
qed

text \<open>
  C5, amended. A write to a discrete input or an input register always returns
  \<open>False\<close>, and the port sees nothing more than what the connection guard does. On a
  connected client the port sees nothing at all, the connection state is unchanged, and
  the instrument keeps its timeout (its slave address is set to the target).
\<close>

theorem readonly_write_rejected:
  assumes "RegisterType_of rta = Some rt" and "rt = DISCRETE_INPUT \<or> rt = INPUT_REGISTER"
  shows "fst (write_register T addr reg val rta c) = Inr False
       \<and> trace (snd (write_register T addr reg val rta c)) = trace (snd (ensure_connected T c))
       \<and> (connected c \<longrightarrow> instrument c = Some i \<longrightarrow>
            trace (snd (write_register T addr reg val rta c)) = trace c
            \<and> connected (snd (write_register T addr reg val rta c))
            \<and> state (snd (write_register T addr reg val rta c)) = state c
            \<and> instrument (snd (write_register T addr reg val rta c))
                = Some (i\<lparr>slave_address := addr\<rparr>))"
proof -
  have wr: "write_request rt reg val = None"
    using assms(2) by (auto simp: write_request_def)
  have live: "\<And>c1 i1. connected c1 \<Longrightarrow> instrument c1 = Some i1 \<Longrightarrow>
      write_register T addr reg val rta c1 =
        (Inr False, c1\<lparr>instrument := Some (i1\<lparr>slave_address := addr\<rparr>)\<rparr>)"
    by (simp add: write_register_live [OF _ _ assms(1)] wr)
  have gen: "fst (write_register T addr reg val rta c) = Inr False
       \<and> trace (snd (write_register T addr reg val rta c)) = trace (snd (ensure_connected T c))"
  proof (cases "ensure_connected T c")
    case (Pair b c1)
    show ?thesis
    proof (cases b)
      case False
      then show ?thesis using Pair
        by (simp add: write_register_reconnect [of T addr reg val rta c])
    next
      case True
      with Pair ensure_connected_True [of T c c1]
      obtain i1 where "connected c1" "instrument c1 = Some i1" by auto
      from live [OF this] show ?thesis using Pair True
        by (simp add: write_register_reconnect [of T addr reg val rta c])
    qed
  qed
  show ?thesis using gen by (auto simp: live state_def)
qed

theorem readonly_write_rejected_witness:
  "RegisterType_of (Member INPUT_REGISTER) = Some INPUT_REGISTER
   \<and> connected live_client \<and> instrument live_client \<noteq> None
   \<and> fst (write_register demo_link 3 0 1 (Member INPUT_REGISTER) live_client) = Inr False
   \<and> trace (snd (write_register demo_link 3 0 1 (Member INPUT_REGISTER) live_client)) = []
   \<and> state (snd (write_register demo_link 3 0 1 (Member INPUT_REGISTER) live_client))
       = Connected"
proof -
  have m: "RegisterType_of (Member INPUT_REGISTER) = Some INPUT_REGISTER" by simp
  have o: "INPUT_REGISTER = DISCRETE_INPUT \<or> INPUT_REGISTER = INPUT_REGISTER" by simp
  show ?thesis
    using readonly_write_rejected [OF m o, where T = demo_link and addr = 3
      and reg = 0 and val = 1 and c = live_client
      and i = "\<lparr>slave_address = 1, serial_timeout = 1, serial_is_open = True,
        serial_baudrate = 9600, serial_bytesize = 8, serial_parity = ''N'',
        serial_stopbits = 1\<rparr>"]
    by (simp add: live_client_live state_def ensure_connected_def)
qed

section \<open>Basic facts about the serial timeout\<close>

lemma list_all_probe_events [simp]: "list_all (at_timeout t) (map (probe_event t) as)"
  by (induction as) (simp_all add: probe_event_def)

lemma connect_events:
  "\<exists>evs. trace (snd (connect T c)) = trace c @ evs \<and> list_all (at_timeout 1) evs"
proof (cases "connected c \<and> instrument c \<noteq> None")
  case True
  then show ?thesis by (auto simp: connect_def)
next
  case False
  obtain d where d: "trace (disconnect c) = trace c @ d" "list_all (at_timeout 1) d"
    by (cases "instrument c") (auto simp: disconnect_def)
  show ?thesis
  proof (cases "opens T (trace (disconnect c))")
    case no: False
    then have "trace (snd (connect T c)) = trace c @ (d @ [PortOpen False])"
      using False d by (auto simp: connect_def Let_def)
    moreover have "list_all (at_timeout 1) (d @ [PortOpen False])" using d by simp
    ultimately show ?thesis by blast
  next
    case yes: True
    show ?thesis
    proof (cases "configures T (trace (disconnect c) @ [PortOpen True]) (baudrate c)")
      case nos: False
      then have "trace (snd (connect T c)) = trace c @ (d @ [PortOpen True, PortSetup False])"
        using False yes d by (auto simp: connect_def Let_def)
      moreover have "list_all (at_timeout 1) (d @ [PortOpen True, PortSetup False])"
        using d by simp
      ultimately show ?thesis by blast
    next
      case yess: True
      let ?c2 = "disconnect c\<lparr>instrument := Some (configured_instrument (baudrate c)),
                      trace := trace (disconnect c) @ [PortOpen True, PortSetup True]\<rparr>"
      have eq: "connect T c = probe T test_addresses ?c2"
        using False yes yess by (rule connect_probe)
      have "instrument ?c2 = Some (configured_instrument (baudrate c))" by simp
      from probe_trace [OF this, of test_addresses T]
      obtain k where "trace (snd (probe T test_addresses ?c2)) =
          trace ?c2 @ map (probe_event 1) (take k test_addresses)"
        by auto
      then have "trace (snd (connect T c)) =
          trace c @ (d @ PortOpen True # PortSetup True
                       # map (probe_event 1) (take k test_addresses))"
        and "list_all (at_timeout 1) (d @ PortOpen True # PortSetup True
                       # map (probe_event 1) (take k test_addresses))"
        using eq d by simp_all
      then show ?thesis by blast
    qed
  qed
qed

lemma ensure_connected_connect:
  "\<not> (connected c \<and> instrument c \<noteq> None) \<Longrightarrow> ensure_connected T c = connect T c"
  unfolding ensure_connected_def by (rule if_not_P)

lemma connect_closed_timeout:
  "\<not> (connected c \<and> instrument c \<noteq> None) \<Longrightarrow> \<not> opens T (trace (disconnect c)) \<Longrightarrow>
   serial_timeout_of (snd (connect T c)) = serial_timeout_of c"
  by (cases "instrument c") (auto simp: connect_def Let_def disconnect_def serial_timeout_of_def)

lemma read_register_scoped:
  assumes "connected c" and "instrument c = Some i"
  shows "serial_timeout_of (snd (read_register T addr reg rta kw c)) = serial_timeout_of c
       \<and> trace (snd (read_register T addr reg rta kw c)) =
           trace c @ (case RegisterType_of rta of
                        None \<Rightarrow> []
                      | Some rt \<Rightarrow> [Bus addr 1 (read_request rt reg kw)])"
proof (cases "RegisterType_of rta")
  case None
  then show ?thesis by (simp add: read_register_unknown_type [OF assms])
next
  case (Some rt)
  then show ?thesis using assms
    by (cases "respond T (trace c) addr 1 (read_request rt reg kw)")
       (simp_all add: read_register_live [OF assms Some] serial_timeout_of_def)
qed

lemma write_register_scoped:
  assumes "connected c" and "instrument c = Some i"
  shows "serial_timeout_of (snd (write_register T addr reg val rta c)) = serial_timeout_of c
       \<and> trace (snd (write_register T addr reg val rta c)) =
           trace c @ (case RegisterType_of rta of
                        None \<Rightarrow> []
                      | Some rt \<Rightarrow>
                          (case write_request rt reg val of
                             None \<Rightarrow> []
                           | Some rq \<Rightarrow> [Bus addr 1 rq]))"
proof (cases "RegisterType_of rta")
  case None
  then show ?thesis by (simp add: write_register_unknown_type [OF assms])
next
  case (Some rt)
  show ?thesis
  proof (cases "write_request rt reg val")
    case None
    then show ?thesis using assms Some
      by (simp add: write_register_live [OF assms Some] serial_timeout_of_def)
  next
    case rq: (Some rq)
    then show ?thesis using assms Some
      by (cases "respond T (trace c) addr 1 rq")
         (simp_all add: write_register_live [OF assms Some] serial_timeout_of_def)
  qed
qed

lemma scan_devices_scoped:
  "serial_timeout_of (snd (scan_devices T s e c)) = serial_timeout_of c
   \<and> (\<exists>evs. trace (snd (scan_devices T s e c)) = trace c @ evs
         \<and> list_all (at_timeout (1 / 5)) evs)"
proof (cases "instrument c")
  case None
  then show ?thesis by (simp add: scan_devices_def)
next
  case (Some i)
  have i': "instrument (set_timeout (1 / 5) c) = Some (i\<lparr>serial_timeout := 1 / 5\<rparr>)"
    using Some by simp
  show ?thesis
    using Some scan_loop_upto [OF i', of T s e "[]"]
    by (auto simp: scan_devices_def serial_timeout_of_def)
qed

lemma slow_client_live:
  "connected slow_client"
  "instrument slow_client = Some \<lparr>slave_address = 1, serial_timeout = 3, serial_is_open = True,
      serial_baudrate = 9600, serial_bytesize = 8, serial_parity = ''N'', serial_stopbits = 1\<rparr>"
  "trace slow_client = []"
  by (simp_all add: slow_client_def)

lemma dropped_client_eq:
  "dropped_client =
     slow_client\<lparr>connected := False, trace := [Bus 1 1 (ReadRegister 0 4 0)]\<rparr>"
  unfolding dropped_client_def
  by (simp add: read_register_live [OF slow_client_live(1,2)],
      simp add: demo_link_def read_request_def slow_client_def)

lemma connect_dropped:
  "connect demo_link dropped_client =
     (True, slow_client\<lparr>instrument := Some \<lparr>slave_address = 3, serial_timeout = 1,
                 serial_is_open = True, serial_baudrate = 9600, serial_bytesize = 8,
                 serial_parity = ''N'', serial_stopbits = 1\<rparr>,
               connected := True,
               trace := [Bus 1 1 (ReadRegister 0 4 0), PortClose, PortOpen True,
                         PortSetup True, probe_event 1 1, probe_event 1 2,
                         probe_event 1 3]\<rparr>)"
  by (simp add: dropped_client_eq connect_def disconnect_def slow_client_def demo_link_def
      test_addresses_def probe.simps bus_def set_address_def probe_event_def
      configured_instrument_def)

section \<open>The scoped timeout\<close>

text \<open>
  C9, as stated, fails: a client whose serial timeout is 3 s, after one read that got no
  response, reconnects on its next read; \<open>connect\<close> sets the timeout of the new
  instrument to 1.0 s (line 156) before the read saves it (line 227), so that after the
  read, which succeeds, the timeout is 1 s and no longer 3 s.
\<close>

theorem reconnecting_read_resets_timeout:
  "serial_timeout_of slow_client = Some 3
   \<and> dropped_client = snd (read_register demo_link 1 0 (Member INPUT_REGISTER) None slow_client)
   \<and> serial_timeout_of dropped_client = Some 3
   \<and> fst (read_register demo_link 3 0 (Member INPUT_REGISTER) None dropped_client)
       = Inr (Some 12)
   \<and> serial_timeout_of
        (snd (read_register demo_link 3 0 (Member INPUT_REGISTER) None dropped_client))
       = Some 1"
proof -
  have e: "ensure_connected demo_link dropped_client = connect demo_link dropped_client"
    by (simp add: ensure_connected_def dropped_client_eq)
  have a: "serial_timeout_of slow_client = Some 3 \<and> serial_timeout_of dropped_client = Some 3"
    by (simp add: dropped_client_eq serial_timeout_of_def slow_client_def)
  have b: "dropped_client =
      snd (read_register demo_link 1 0 (Member INPUT_REGISTER) None slow_client)"
    by (simp add: dropped_client_def)
  have c: "fst (read_register demo_link 3 0 (Member INPUT_REGISTER) None dropped_client)
       = Inr (Some 12)
     \<and> serial_timeout_of
        (snd (read_register demo_link 3 0 (Member INPUT_REGISTER) None dropped_client))
       = Some 1"
    by (simp add: read_register_reconnect
          [of demo_link 3 0 "Member INPUT_REGISTER" None dropped_client]
        e connect_dropped read_register_live [where rt = INPUT_REGISTER]
        serial_timeout_of_def,
        simp add: demo_link_def)
  from a b c show ?thesis by blast
qed

text \<open>
  C9, amended. A read or a write sends its request under a serial timeout of 1.0 s, a
  scan sends every probe under 200 ms, and on every exit path the instrument gets back
  the timeout that it had when the override was taken. So after a scan, and after a read
  or a write on a connected client, the timeout is what it was before the operation. A
  read or a write on a client that is not connected reconnects first, and the override is
  taken after that: the timeout afterwards is the one that the guard left, which is
  1.0 s when the reconnection succeeded and the old one when the port could not be
  opened.
\<close>

theorem timeout_override_restored:
  assumes "ensure_connected T c = (b, c1)"
  shows "serial_timeout_of (snd (read_register T addr reg rta kw c)) = serial_timeout_of c1
       \<and> trace (snd (read_register T addr reg rta kw c)) =
           trace c1 @ (if b then (case RegisterType_of rta of
                                    None \<Rightarrow> []
                                  | Some rt \<Rightarrow> [Bus addr 1 (read_request rt reg kw)])
                       else [])
       \<and> serial_timeout_of (snd (write_register T addr reg val rta c)) = serial_timeout_of c1
       \<and> trace (snd (write_register T addr reg val rta c)) =
           trace c1 @ (if b then (case RegisterType_of rta of
                                    None \<Rightarrow> []
                                  | Some rt \<Rightarrow>
                                      (case write_request rt reg val of
                                         None \<Rightarrow> []
                                       | Some rq \<Rightarrow> [Bus addr 1 rq]))
                       else [])
       \<and> serial_timeout_of (snd (scan_devices T s e c)) = serial_timeout_of c
       \<and> (\<exists>evs. trace (snd (scan_devices T s e c)) = trace c @ evs
             \<and> list_all (at_timeout (1 / 5)) evs)
       \<and> (connected c \<and> instrument c \<noteq> None \<longrightarrow> b \<and> c1 = c)
       \<and> (\<not> (connected c \<and> instrument c \<noteq> None) \<longrightarrow>
            (b \<longrightarrow> serial_timeout_of c1 = Some 1)
            \<and> (\<not> opens T (trace (disconnect c)) \<longrightarrow>
                  \<not> b \<and> serial_timeout_of c1 = serial_timeout_of c))
       \<and> (\<exists>evs. trace c1 = trace c @ evs \<and> list_all (at_timeout 1) evs)"
proof (intro conjI)
  show "serial_timeout_of (snd (scan_devices T s e c)) = serial_timeout_of c"
    using scan_devices_scoped [of T s e c] by blast
  show "\<exists>evs. trace (snd (scan_devices T s e c)) = trace c @ evs
             \<and> list_all (at_timeout (1 / 5)) evs"
    using scan_devices_scoped [of T s e c] by blast
  show "connected c \<and> instrument c \<noteq> None \<longrightarrow> b \<and> c1 = c"
    using assms by (auto simp: ensure_connected_def)
  show "\<not> (connected c \<and> instrument c \<noteq> None) \<longrightarrow>
            (b \<longrightarrow> serial_timeout_of c1 = Some 1)
            \<and> (\<not> opens T (trace (disconnect c)) \<longrightarrow>
                  \<not> b \<and> serial_timeout_of c1 = serial_timeout_of c)"
  proof (intro impI conjI)
    assume n: "\<not> (connected c \<and> instrument c \<noteq> None)"
    then have eq: "connect T c = (b, c1)" using assms by (simp add: ensure_connected_connect)
    { assume b
      then show "serial_timeout_of c1 = Some 1"
        using ensure_connected_port_open [OF n, of T c1] assms by simp }
    { assume o: "\<not> opens T (trace (disconnect c))"
      show "\<not> b" using connect_fst [of T c] n o eq by simp
      show "serial_timeout_of c1 = serial_timeout_of c"
        using connect_closed_timeout [OF n o] eq by simp }
  qed
  show "\<exists>evs. trace c1 = trace c @ evs \<and> list_all (at_timeout 1) evs"
  proof (cases "connected c \<and> instrument c \<noteq> None")
    case True
    then have "c1 = c" using assms by (auto simp: ensure_connected_def)
    then show ?thesis by simp
  next
    case False
    then have "connect T c = (b, c1)" using assms by (simp add: ensure_connected_connect)
    then show ?thesis using connect_events [of T c] by simp
  qed
next
  show "serial_timeout_of (snd (read_register T addr reg rta kw c)) = serial_timeout_of c1"
  proof (cases b)
    case False
    then show ?thesis using assms by (simp add: read_register_reconnect [of T addr reg rta kw c])
  next
    case True
    with assms ensure_connected_True [of T c c1]
    obtain i where live: "connected c1" "instrument c1 = Some i" by auto
    show ?thesis using assms True read_register_scoped [OF live, of T addr reg rta kw]
      by (simp add: read_register_reconnect [of T addr reg rta kw c])
  qed
  show "trace (snd (read_register T addr reg rta kw c)) =
           trace c1 @ (if b then (case RegisterType_of rta of
                                    None \<Rightarrow> []
                                  | Some rt \<Rightarrow> [Bus addr 1 (read_request rt reg kw)])
                       else [])"
  proof (cases b)
    case False
    then show ?thesis using assms by (simp add: read_register_reconnect [of T addr reg rta kw c])
  next
    case True
    with assms ensure_connected_True [of T c c1]
    obtain i where live: "connected c1" "instrument c1 = Some i" by auto
    show ?thesis using assms True read_register_scoped [OF live, of T addr reg rta kw]
      by (simp add: read_register_reconnect [of T addr reg rta kw c])
  qed
  show "serial_timeout_of (snd (write_register T addr reg val rta c)) = serial_timeout_of c1"
  proof (cases b)
    case False
    then show ?thesis using assms
      by (simp add: write_register_reconnect [of T addr reg val rta c])
  next
    case True
    with assms ensure_connected_True [of T c c1]
    obtain i where live: "connected c1" "instrument c1 = Some i" by auto
    show ?thesis using assms True write_register_scoped [OF live, of T addr reg val rta]
      by (simp add: write_register_reconnect [of T addr reg val rta c])
  qed
  show "trace (snd (write_register T addr reg val rta c)) =
           trace c1 @ (if b then (case RegisterType_of rta of
                                    None \<Rightarrow> []
                                  | Some rt \<Rightarrow>
                                      (case write_request rt reg val of
                                         None \<Rightarrow> []
                                       | Some rq \<Rightarrow> [Bus addr 1 rq]))
                       else [])"
  proof (cases b)
    case False
    then show ?thesis using assms
      by (simp add: write_register_reconnect [of T addr reg val rta c])
  next
    case True
    with assms ensure_connected_True [of T c c1]
    obtain i where live: "connected c1" "instrument c1 = Some i" by auto
    show ?thesis using assms True write_register_scoped [OF live, of T addr reg val rta]
      by (simp add: write_register_reconnect [of T addr reg val rta c])
  qed
qed

theorem timeout_override_restored_witness:
  "ensure_connected demo_link slow_client = (True, slow_client)
   \<and> serial_timeout_of slow_client = Some 3
   \<and> trace (snd (read_register demo_link 3 0 (Member INPUT_REGISTER) None slow_client))
       = [Bus 3 1 (ReadRegister 0 4 0)]
   \<and> serial_timeout_of (snd (read_register demo_link 3 0 (Member INPUT_REGISTER) None slow_client))
       = Some 3
   \<and> serial_timeout_of (snd (read_register demo_link 1 0 (Member INPUT_REGISTER) None slow_client))
       = Some 3
   \<and> trace (snd (write_register demo_link 1 0 42 (Member HOLDING_REGISTER) slow_client))
       = [Bus 1 1 (WriteRegister 0 42 6)]
   \<and> serial_timeout_of
        (snd (write_register demo_link 1 0 42 (Member HOLDING_REGISTER) slow_client)) = Some 3
   \<and> serial_timeout_of (snd (scan_devices demo_link 1 3 slow_client)) = Some 3
   \<and> trace (snd (scan_devices demo_link 1 3 slow_client))
       = [probe_event (1 / 5) 1, probe_event (1 / 5) 2, probe_event (1 / 5) 3]
   \<and> \<not> connected dropped_client
   \<and> fst (ensure_connected demo_link dropped_client)
   \<and> serial_timeout_of
        (snd (read_register demo_link 3 0 (Member INPUT_REGISTER) None dropped_client))
       = Some 1"
proof -
  have e: "ensure_connected demo_link slow_client = (True, slow_client)"
    by (simp add: ensure_connected_def slow_client_live)
  have t: "serial_timeout_of slow_client = Some 3"
    by (simp add: serial_timeout_of_def slow_client_live)
  have u: "[1..3] = [1, 2, 3::int]" by (simp add: upto.simps [of 1 3])
  have r1: "trace (snd (read_register demo_link 3 0 (Member INPUT_REGISTER) None slow_client))
       = [Bus 3 1 (ReadRegister 0 4 0)]
     \<and> serial_timeout_of
         (snd (read_register demo_link 3 0 (Member INPUT_REGISTER) None slow_client)) = Some 3"
    using timeout_override_restored [OF e, where addr = 3 and reg = 0
        and rta = "Member INPUT_REGISTER" and kw = None]
    by (simp add: t slow_client_live read_request_def)
  have r2: "serial_timeout_of
         (snd (read_register demo_link 1 0 (Member INPUT_REGISTER) None slow_client)) = Some 3"
    using timeout_override_restored [OF e, where addr = 1 and reg = 0
        and rta = "Member INPUT_REGISTER" and kw = None]
    by (simp add: t)
  have w: "trace (snd (write_register demo_link 1 0 42 (Member HOLDING_REGISTER) slow_client))
       = [Bus 1 1 (WriteRegister 0 42 6)]
     \<and> serial_timeout_of
        (snd (write_register demo_link 1 0 42 (Member HOLDING_REGISTER) slow_client)) = Some 3"
    using timeout_override_restored [OF e, where addr = 1 and reg = 0
        and rta = "Member HOLDING_REGISTER" and val = 42]
    by (simp add: t slow_client_live write_request_def)
  have s: "serial_timeout_of (snd (scan_devices demo_link 1 3 slow_client)) = Some 3"
    using timeout_override_restored [OF e, where s = 1 and e = 3]
    by (simp add: t)
  have s': "trace (snd (scan_devices demo_link 1 3 slow_client))
       = [probe_event (1 / 5) 1, probe_event (1 / 5) 2, probe_event (1 / 5) 3]"
    by (simp add: slow_client_live scan_devices_def u bus_def set_address_def set_timeout_def
        probe_event_def demo_link_def)
  have nc: "\<not> connected dropped_client" by (simp add: dropped_client_eq)
  have f: "fst (ensure_connected demo_link dropped_client)"
    by (simp add: ensure_connected_def nc connect_dropped)
  then obtain c1 where g: "ensure_connected demo_link dropped_client = (True, c1)"
    by (cases "ensure_connected demo_link dropped_client") auto
  have d: "serial_timeout_of
        (snd (read_register demo_link 3 0 (Member INPUT_REGISTER) None dropped_client))
       = Some 1"
    using timeout_override_restored [OF g, where addr = 3 and reg = 0
        and rta = "Member INPUT_REGISTER" and kw = None] nc
    by simp
  from e t r1 r2 w s s' nc f d show ?thesis by blast
qed

section \<open>Basic facts about polling\<close>

lemma read_device_result:
  "fst (read_device F T d c) =
     (case ensure_connected T c of
        (False, c1) \<Rightarrow> None
      | (True, c1) \<Rightarrow>
          (case respond T (trace c1) (address d) 1 (device_request d) of
             Ok raw \<Rightarrow> Some (fround F (fadd F (fmul F raw (scale d)) (offset d)) 2)
           | NoResponseError \<Rightarrow> None
           | InvalidResponseError \<Rightarrow> None
           | OtherError \<Rightarrow> None))"
proof -
  let ?kw = "if register_type d = INPUT_REGISTER \<or> register_type d = HOLDING_REGISTER
             then Some 2 else None"
  let ?rr = "read_register T (address d) (register d) (Member (register_type d)) ?kw c"
  have rd: "fst (read_device F T d c) =
      (case fst ?rr of Inl e \<Rightarrow> None | Inr None \<Rightarrow> None
       | Inr (Some raw) \<Rightarrow> Some (fround F (fadd F (fmul F raw (scale d)) (offset d)) 2))"
    by (cases ?rr) (simp add: read_device_def Let_def split: sum.splits option.splits)
  show ?thesis
    unfolding rd read_register_result device_request_def
    by (simp split: prod.splits bool.splits response.splits)
qed

lemma read_device_range_free:
  "read_device F T (d\<lparr>min_value := lo, max_value := hi\<rparr>) c = read_device F T d c"
  by (simp add: read_device_def split: prod.splits sum.splits option.splits)

lemma sensor_value_result:
  "fst (sensor_value F T d c) =
     map_option (clamp (min_value d) (max_value d)) (fst (read_device F T d c))"
  by (cases "read_device F T d c")
     (simp add: sensor_value_def clamp_def min.commute split: option.splits)

lemma clamp_range: "lo \<le> hi \<Longrightarrow> lo \<le> clamp lo hi x \<and> clamp lo hi x \<le> hi"
  by (simp add: clamp_def)

lemma read_device_None:
  "fst (read_device F T d c) = None \<longleftrightarrow>
     \<not> fst (ensure_connected T c)
     \<or> \<not> valid (respond T (trace (snd (ensure_connected T c))) (address d) 1
                 (device_request d))"
  by (cases "ensure_connected T c")
     (auto simp: read_device_result valid_def split: response.splits bool.splits)

lemma read_device_fails:
  "\<forall>h a t rq. \<not> valid (respond T h a t rq) \<Longrightarrow> fst (read_device F T d c) = None"
  by (simp add: read_device_None)

lemma get_status_not_Erro [simp]: "get_status d x \<noteq> Erro"
  by (simp add: get_status_def)

lemma reading_of_simps:
  "r_value (reading_of F T d c) = fst (read_device F T d c)"
  "r_status (reading_of F T d c) = Erro \<longleftrightarrow> fst (read_device F T d c) = None"
  "fst (read_device F T d c) = Some v \<Longrightarrow> r_status (reading_of F T d c) = get_status d v"
  by (simp_all add: reading_of_def split: option.splits)

lemma update_fresh: "k \<notin> fst ` set al \<Longrightarrow> AList.update k v al = al @ [(k, v)]"
  by (induction al) auto

lemma length_poll_states [simp]: "length (poll_states F T ds c) = length ds"
  by (induction ds arbitrary: c) auto

lemma read_all_loop_eq:
  "distinct (map fst ds) \<Longrightarrow> fst ` set ds \<inter> fst ` set rs = {} \<Longrightarrow>
   fst (read_all_loop F T ds rs c) =
     rs @ map (\<lambda>((a, d), ck). (a, reading_of F T d ck)) (zip ds (poll_states F T ds c))"
proof (induction ds arbitrary: rs c)
  case Nil
  then show ?case by simp
next
  case (Cons p ds)
  obtain a d where p: "p = (a, d)" by (cases p)
  obtain v c' where rd: "read_device F T d c = (v, c')" by (cases "read_device F T d c")
  have r: "\<lparr>r_name = name d, r_value = v, r_unit = unit d,
             r_status = (case v of None \<Rightarrow> Erro | Some x \<Rightarrow> get_status d x),
             r_timestamp = clock T (trace c')\<rparr> = reading_of F T d c"
    by (simp add: reading_of_def rd)
  have fresh: "a \<notin> fst ` set rs" using Cons.prems p by auto
  have u: "AList.update a (reading_of F T d c) rs = rs @ [(a, reading_of F T d c)]"
    using fresh by (rule update_fresh)
  have "distinct (map fst ds)" using Cons.prems by simp
  moreover have "fst ` set ds \<inter> fst ` set (rs @ [(a, reading_of F T d c)]) = {}"
    using Cons.prems p by auto
  ultimately have "fst (read_all_loop F T ds (rs @ [(a, reading_of F T d c)]) c') =
      (rs @ [(a, reading_of F T d c)])
        @ map (\<lambda>((a, d), ck). (a, reading_of F T d ck)) (zip ds (poll_states F T ds c'))"
    by (rule Cons.IH)
  then show ?case by (simp add: p rd r u)
qed

lemma read_all_devices_eq:
  "distinct (map fst (devices c)) \<Longrightarrow>
   fst (read_all_devices F T c) =
     map (\<lambda>((a, d), ck). (a, reading_of F T d ck))
       (zip (devices c) (poll_states F T (devices c) c))"
  using read_all_loop_eq [of "devices c" "[]" F T c] by (simp add: read_all_devices_def)

lemma map_fst_readings:
  "length ps = length ds \<Longrightarrow>
   map fst (map (\<lambda>((a, d), ck). (a, g d ck)) (zip ds ps)) = map fst ds"
  by (induction ps ds rule: list_induct2) auto

lemma polling_client_devices:
  "devices polling_client = [(1, demo_device), (2, default_device), (3, coil_device)]"
  by (simp add: polling_client_def add_device_def new_client_def demo_device_def
      default_device_def coil_device_def)

lemma exact_floats_simps:
  "fround exact_floats (fadd exact_floats (fmul exact_floats (49 / 4) 1) 0) 2 = 49 / 4"
  "fround exact_floats (fadd exact_floats (fmul exact_floats (49 / 4) 1) (1 / 512)) 2 = 49 / 4"
  "fround exact_floats (fadd exact_floats (fmul exact_floats 500 1) 0) 2 = 500"
  by (simp_all add: exact_floats_def round_half_even_def Let_def)

section \<open>Polling\<close>

text \<open>
  C2, as stated, fails. \<open>read_device\<close> does not clamp: a device with scale 1, offset 0
  and range 0 to 100 whose register reads 500 is reported at 500, where the clamp gives
  100. The dashboard clamps what \<open>read_device\<close> returns, which is rounded to two
  decimals: with scale 1 and offset 0.001953125 and a register that reads 12.25 it shows
  12.25, where the clamp of \<open>raw * scale + offset\<close> is 12.251953125.
\<close>

theorem read_device_rounds_and_leaves_range:
  "scale default_device > 0
   \<and> fst (read_register hot_link 2 0 (Member INPUT_REGISTER) (Some 2) live_client)
       = Inr (Some 500)
   \<and> fst (read_device exact_floats hot_link default_device live_client) = Some 500
   \<and> clamp (min_value default_device) (max_value default_device)
        (500 * scale default_device + offset default_device) = 100
   \<and> scale offset_device > 0
   \<and> fst (read_register steady_link 4 0 (Member INPUT_REGISTER) (Some 2) live_client)
       = Inr (Some (49 / 4))
   \<and> fst (sensor_value exact_floats steady_link offset_device live_client) = Some (49 / 4)
   \<and> clamp (min_value offset_device) (max_value offset_device)
        (49 / 4 * scale offset_device + offset offset_device) = 6273 / 512"
proof -
  have e: "\<And>T. ensure_connected T live_client = (True, live_client)"
    by (simp add: ensure_connected_def live_client_live)
  have a: "fst (read_register hot_link 2 0 (Member INPUT_REGISTER) (Some 2) live_client)
       = Inr (Some 500)
     \<and> fst (read_register steady_link 4 0 (Member INPUT_REGISTER) (Some 2) live_client)
       = Inr (Some (49 / 4))"
    by (simp add: read_register_result e hot_link_def steady_link_def)
  have b: "fst (read_device exact_floats hot_link default_device live_client) = Some 500"
    by (simp add: read_device_result e hot_link_def default_device_def exact_floats_simps)
  have c: "fst (sensor_value exact_floats steady_link offset_device live_client)
      = Some (49 / 4)"
    by (simp add: sensor_value_result read_device_result e steady_link_def offset_device_def
        exact_floats_simps clamp_def)
  have d: "scale default_device > 0 \<and> scale offset_device > 0
     \<and> clamp (min_value default_device) (max_value default_device)
        (500 * scale default_device + offset default_device) = 100
     \<and> clamp (min_value offset_device) (max_value offset_device)
        (49 / 4 * scale offset_device + offset offset_device) = 6273 / 512"
    by (simp add: default_device_def offset_device_def clamp_def)
  from a b c d show ?thesis by blast
qed

text \<open>
  C2, amended. For every device and every raw value read with success, \<open>read_device\<close>
  returns \<open>raw * scale + offset\<close>, computed in float arithmetic and rounded to two
  decimals, whatever the range of the device: a value out of range is logged and returned
  as it is (lines 306-314). The dashboard brings that value into the range, so that what
  it shows is \<open>clamp(round(raw * scale + offset, 2), min_value, max_value)\<close>, which lies
  between \<open>min_value\<close> and \<open>max_value\<close> whenever \<open>min_value\<close> is not above \<open>max_value\<close>.
\<close>

theorem read_device_scales_and_rounds:
  assumes "ensure_connected T c = (True, c1)"
    and "respond T (trace c1) (address d) 1 (device_request d) = Ok raw"
  shows "fst (read_device F T d c)
           = Some (fround F (fadd F (fmul F raw (scale d)) (offset d)) 2)
       \<and> read_device F T (d\<lparr>min_value := lo, max_value := hi\<rparr>) c = read_device F T d c
       \<and> fst (sensor_value F T d c)
           = Some (clamp (min_value d) (max_value d)
                     (fround F (fadd F (fmul F raw (scale d)) (offset d)) 2))
       \<and> (min_value d \<le> max_value d \<longrightarrow>
            min_value d \<le> the (fst (sensor_value F T d c))
            \<and> the (fst (sensor_value F T d c)) \<le> max_value d)"
  using assms clamp_range [of "min_value d" "max_value d"]
  by (simp add: read_device_result sensor_value_result read_device_range_free)

theorem read_device_scales_and_rounds_witness:
  "ensure_connected steady_link live_client = (True, live_client)
   \<and> respond steady_link (trace live_client) (address offset_device) 1
        (device_request offset_device) = Ok (49 / 4)
   \<and> fst (read_device exact_floats steady_link offset_device live_client) = Some (49 / 4)
   \<and> fst (sensor_value exact_floats steady_link offset_device live_client) = Some (49 / 4)
   \<and> min_value default_device \<le> max_value default_device
   \<and> respond hot_link (trace live_client) (address default_device) 1
        (device_request default_device) = Ok 500
   \<and> fst (read_device exact_floats hot_link default_device live_client) = Some 500
   \<and> fst (sensor_value exact_floats hot_link default_device live_client) = Some 100"
proof -
  have e: "\<And>T. ensure_connected T live_client = (True, live_client)"
    by (simp add: ensure_connected_def live_client_live)
  have r1: "respond steady_link (trace live_client) (address offset_device) 1
      (device_request offset_device) = Ok (49 / 4)"
    by (simp add: steady_link_def)
  have r2: "respond hot_link (trace live_client) (address default_device) 1
      (device_request default_device) = Ok 500"
    by (simp add: hot_link_def)
  have t1: "fst (read_device exact_floats steady_link offset_device live_client) = Some (49 / 4)
     \<and> fst (sensor_value exact_floats steady_link offset_device live_client) = Some (49 / 4)"
    using read_device_scales_and_rounds [OF e r1, where F = exact_floats]
    by (simp add: offset_device_def exact_floats_simps clamp_def)
  have t2: "fst (read_device exact_floats hot_link default_device live_client) = Some 500
     \<and> fst (sensor_value exact_floats hot_link default_device live_client) = Some 100"
    using read_device_scales_and_rounds [OF e r2, where F = exact_floats]
    by (simp add: default_device_def exact_floats_simps clamp_def)
  have m: "min_value default_device \<le> max_value default_device"
    by (simp add: default_device_def)
  from e r1 r2 t1 t2 m show ?thesis by blast
qed

text \<open>
  C7, as stated, fails: with three devices on a link that never answers,
  \<open>read_all_devices\<close> returns the three error readings and nothing else. Its value is
  the dictionary of readings; no flag comes with it.
\<close>

theorem read_all_devices_returns_readings_only:
  "map fst (devices polling_client) = [1, 2, 3]
   \<and> respond dead_link [] 1 1 (device_request demo_device) = NoResponseError
   \<and> fst (read_all_devices exact_floats dead_link polling_client) =
       [(1, \<lparr>r_name = ''Sensor 1'', r_value = None, r_unit = ''ppm'', r_status = Erro,
              r_timestamp = ''2024-01-01 00:00:00''\<rparr>),
        (2, \<lparr>r_name = ''Sensor 2'', r_value = None, r_unit = ''ppm'', r_status = Erro,
              r_timestamp = ''2024-01-01 00:00:00''\<rparr>),
        (3, \<lparr>r_name = ''Sensor 3'', r_value = None, r_unit = ''ppm'', r_status = Erro,
              r_timestamp = ''2024-01-01 00:00:00''\<rparr>)]"
proof -
  have f: "\<And>d c. fst (read_device exact_floats dead_link d c) = None"
    by (rule read_device_fails) (simp add: dead_link_def valid_def)
  have g: "\<And>d c. reading_of exact_floats dead_link d c =
      \<lparr>r_name = name d, r_value = None, r_unit = unit d, r_status = Erro,
       r_timestamp = ''2024-01-01 00:00:00''\<rparr>"
    by (simp add: reading_of_def f, simp add: dead_link_def)
  have "fst (read_all_devices exact_floats dead_link polling_client) =
      map (\<lambda>((a, d), ck). (a, reading_of exact_floats dead_link d ck))
        (zip (devices polling_client)
           (poll_states exact_floats dead_link (devices polling_client) polling_client))"
    by (rule read_all_devices_eq) (simp add: polling_client_devices)
  then have "fst (read_all_devices exact_floats dead_link polling_client) =
       [(1, \<lparr>r_name = ''Sensor 1'', r_value = None, r_unit = ''ppm'', r_status = Erro,
              r_timestamp = ''2024-01-01 00:00:00''\<rparr>),
        (2, \<lparr>r_name = ''Sensor 2'', r_value = None, r_unit = ''ppm'', r_status = Erro,
              r_timestamp = ''2024-01-01 00:00:00''\<rparr>),
        (3, \<lparr>r_name = ''Sensor 3'', r_value = None, r_unit = ''ppm'', r_status = Erro,
              r_timestamp = ''2024-01-01 00:00:00''\<rparr>)]"
    by (simp add: polling_client_devices g,
        simp add: demo_device_def default_device_def coil_device_def)
  then show ?thesis
    by (simp add: polling_client_devices dead_link_def)
qed

text \<open>
  C7, amended. \<open>read_all_devices\<close> returns exactly one reading per registered device,
  in the order of the registry, and the reading of a device is made from the read of that
  device alone: its value is what \<open>read_device\<close> returned for it, its status is the error
  status exactly when that read failed, which is when the connection could not be made
  or the request of the device got no valid response, and the classification of the
  value otherwise. When the transport fails every request, every reading is an error with
  no value. Nothing but the readings is returned.
\<close>

theorem read_all_devices_one_reading_each:
  assumes "distinct (map fst (devices c))"
  shows "fst (read_all_devices F T c) =
           map (\<lambda>((a, d), ck). (a, reading_of F T d ck))
             (zip (devices c) (poll_states F T (devices c) c))
       \<and> map fst (fst (read_all_devices F T c)) = map fst (devices c)
       \<and> length (fst (read_all_devices F T c)) = length (devices c)
       \<and> r_value (reading_of F T d ck) = fst (read_device F T d ck)
       \<and> (r_status (reading_of F T d ck) = Erro \<longleftrightarrow> fst (read_device F T d ck) = None)
       \<and> (fst (read_device F T d ck) = Some v \<longrightarrow>
            r_status (reading_of F T d ck) = get_status d v)
       \<and> (fst (read_device F T d ck) = None \<longleftrightarrow>
            \<not> fst (ensure_connected T ck)
            \<or> \<not> valid (respond T (trace (snd (ensure_connected T ck))) (address d) 1
                        (device_request d)))
       \<and> ((\<forall>h a t rq. \<not> valid (respond T h a t rq)) \<longrightarrow>
            map (r_status \<circ> snd) (fst (read_all_devices F T c))
              = replicate (length (devices c)) Erro
            \<and> map (r_value \<circ> snd) (fst (read_all_devices F T c))
              = replicate (length (devices c)) None)"
proof -
  have eq: "fst (read_all_devices F T c) =
           map (\<lambda>((a, d), ck). (a, reading_of F T d ck))
             (zip (devices c) (poll_states F T (devices c) c))"
    using assms by (rule read_all_devices_eq)
  have keys: "map fst (fst (read_all_devices F T c)) = map fst (devices c)"
    unfolding eq by (rule map_fst_readings) simp
  have len: "length (fst (read_all_devices F T c)) = length (devices c)"
    unfolding eq by simp
  have fail: "(\<forall>h a t rq. \<not> valid (respond T h a t rq)) \<longrightarrow>
            map (r_status \<circ> snd) (fst (read_all_devices F T c))
              = replicate (length (devices c)) Erro
            \<and> map (r_value \<circ> snd) (fst (read_all_devices F T c))
              = replicate (length (devices c)) None"
  proof
    assume "\<forall>h a t rq. \<not> valid (respond T h a t rq)"
    then have f: "\<And>d c. fst (read_device F T d c) = None" by (rule read_device_fails)
    have s: "\<And>d c. r_status (reading_of F T d c) = Erro" "\<And>d c. r_value (reading_of F T d c) = None"
      by (simp_all add: reading_of_def f)
    have "map (r_status \<circ> snd) (fst (read_all_devices F T c))
        = map (\<lambda>x. Erro) (zip (devices c) (poll_states F T (devices c) c))"
      unfolding eq by (simp add: case_prod_beta s)
    moreover have "map (r_value \<circ> snd) (fst (read_all_devices F T c))
        = map (\<lambda>x. None) (zip (devices c) (poll_states F T (devices c) c))"
      unfolding eq by (simp add: case_prod_beta s)
    ultimately show "map (r_status \<circ> snd) (fst (read_all_devices F T c))
              = replicate (length (devices c)) Erro
            \<and> map (r_value \<circ> snd) (fst (read_all_devices F T c))
              = replicate (length (devices c)) None"
      by (simp add: map_replicate_const)
  qed
  show ?thesis
    using eq keys len fail reading_of_simps [of F T d ck] read_device_None [of F T d ck]
    by blast
qed

theorem read_all_devices_one_reading_each_witness:
  "distinct (map fst (devices polling_client))
   \<and> map fst (fst (read_all_devices exact_floats mixed_link polling_client)) = [1, 2, 3]
   \<and> map (r_value \<circ> snd) (fst (read_all_devices exact_floats mixed_link polling_client))
       = [None, Some (49 / 4), None]
   \<and> map (r_status \<circ> snd) (fst (read_all_devices exact_floats mixed_link polling_client))
       = [Erro, Normal, Erro]
   \<and> map (r_status \<circ> snd) (fst (read_all_devices exact_floats dead_link polling_client))
       = [Erro, Erro, Erro]
   \<and> map (r_value \<circ> snd) (fst (read_all_devices exact_floats dead_link polling_client))
       = [None, None, None]"
proof -
  have d: "distinct (map fst (devices polling_client))"
    by (simp add: polling_client_devices)
  have v: "\<forall>h a t rq. \<not> valid (respond dead_link h a t rq)"
    by (simp add: dead_link_def valid_def)
  have g: "\<And>c. fst (ensure_connected mixed_link c)"
    by (simp add: ensure_connected_def connect_fst mixed_link_def)
  have r: "\<And>h a t rq. respond mixed_link h a t rq
      = (if a = 2 then Ok (49 / 4) else NoResponseError)"
    by (simp add: mixed_link_def)
  have m: "\<And>dv c. fst (read_device exact_floats mixed_link dv c) =
      (if address dv = 2
       then Some (fround exact_floats
                    (fadd exact_floats (fmul exact_floats (49 / 4) (scale dv)) (offset dv)) 2)
       else None)"
  proof -
    fix dv c
    from g [of c] obtain c1 where "ensure_connected mixed_link c = (True, c1)"
      by (cases "ensure_connected mixed_link c") auto
    then show "fst (read_device exact_floats mixed_link dv c) =
      (if address dv = 2
       then Some (fround exact_floats
                    (fadd exact_floats (fmul exact_floats (49 / 4) (scale dv)) (offset dv)) 2)
       else None)"
      by (simp add: read_device_result r)
  qed
  have m1: "\<And>c. fst (read_device exact_floats mixed_link demo_device c) = None"
    "\<And>c. fst (read_device exact_floats mixed_link default_device c) = Some (49 / 4)"
    "\<And>c. fst (read_device exact_floats mixed_link coil_device c) = None"
    by (simp_all add: m demo_device_def default_device_def coil_device_def exact_floats_simps)
  have st: "\<And>c. r_status (reading_of exact_floats mixed_link demo_device c) = Erro"
    "\<And>c. r_status (reading_of exact_floats mixed_link default_device c) = Normal"
    "\<And>c. r_status (reading_of exact_floats mixed_link coil_device c) = Erro"
    "\<And>c. r_value (reading_of exact_floats mixed_link demo_device c) = None"
    "\<And>c. r_value (reading_of exact_floats mixed_link default_device c) = Some (49 / 4)"
    "\<And>c. r_value (reading_of exact_floats mixed_link coil_device c) = None"
    by (simp_all add: reading_of_def m1, simp add: get_status_def default_device_def)
  have a: "map fst (fst (read_all_devices exact_floats mixed_link polling_client)) = [1, 2, 3]
     \<and> map (r_value \<circ> snd) (fst (read_all_devices exact_floats mixed_link polling_client))
       = [None, Some (49 / 4), None]
     \<and> map (r_status \<circ> snd) (fst (read_all_devices exact_floats mixed_link polling_client))
       = [Erro, Normal, Erro]"
    using read_all_devices_one_reading_each [OF d, where F = exact_floats and T = mixed_link
        and d = default_device and ck = polling_client and v = "49 / 4"]
    by (simp add: polling_client_devices st)
  have b: "map (r_status \<circ> snd) (fst (read_all_devices exact_floats dead_link polling_client))
       = [Erro, Erro, Erro]
     \<and> map (r_value \<circ> snd) (fst (read_all_devices exact_floats dead_link polling_client))
       = [None, None, None]"
  proof -
    have "(\<forall>h a t rq. \<not> valid (respond dead_link h a t rq)) \<longrightarrow>
        map (r_status \<circ> snd) (fst (read_all_devices exact_floats dead_link polling_client))
          = replicate (length (devices polling_client)) Erro
        \<and> map (r_value \<circ> snd) (fst (read_all_devices exact_floats dead_link polling_client))
          = replicate (length (devices polling_client)) None"
      using read_all_devices_one_reading_each [OF d, where F = exact_floats and T = dead_link
          and d = default_device and ck = polling_client and v = "49 / 4"]
      by blast
    then show ?thesis using v by (simp add: polling_client_devices numeral_3_eq_3)
  qed
  from d a b show ?thesis by blast
qed

end
